theory Spec2Isabelle
  imports Main
begin

unbundle bit_operations_syntax

chapter \<open>The program\<close>

section \<open>Namespace flag resolver\<close>

text \<open>
  \<^verbatim>\<open>libcontainer.Namespace\<close> is declared outside the source file; the resolver reads
  only its \<^verbatim>\<open>Value\<close> field. The registry lookup \<^verbatim>\<open>libcontainer.GetNamespace\<close>
  (nil for a name that is not registered) is a parameter of the model.
\<close>

record Namespace =
  Key :: string
  Value :: int
  File :: string

type_synonym registry = "string \<Rightarrow> Namespace option"

text \<open>
  A Go map \<^verbatim>\<open>map[string]bool\<close> is a finite map; \<^verbatim>\<open>range\<close> visits each of its
  entries once, in an order the language leaves open. \<open>range_order m kvs\<close> says that
  \<open>kvs\<close> is one such order of visiting \<open>m\<close>.
\<close>

definition range_order :: "(string \<rightharpoonup> bool) \<Rightarrow> (string \<times> bool) list \<Rightarrow> bool" where
  "range_order m kvs \<longleftrightarrow> distinct (map fst kvs) \<and> map_of kvs = m"

text \<open>The loop body of \<^verbatim>\<open>GetNamespaceFlags\<close>, one map entry at a time.\<close>

fun GetNamespaceFlags_loop :: "registry \<Rightarrow> (string \<times> bool) list \<Rightarrow> int \<Rightarrow> int" where
  "GetNamespaceFlags_loop GetNamespace [] flag = flag"
| "GetNamespaceFlags_loop GetNamespace ((key, enabled) # rest) flag =
     GetNamespaceFlags_loop GetNamespace rest
       (if enabled
        then (case GetNamespace key of
                Some ns \<Rightarrow> flag OR Value ns
              | None \<Rightarrow> flag)
        else flag)"

definition GetNamespaceFlags :: "registry \<Rightarrow> (string \<times> bool) list \<Rightarrow> int" where
  "GetNamespaceFlags GetNamespace kvs = GetNamespaceFlags_loop GetNamespace kvs 0"

text \<open>
  The resolver as the specification words it: the values of the enabled, registered
  names, OR-ed together.
\<close>

definition enabled_values :: "registry \<Rightarrow> (string \<times> bool) list \<Rightarrow> int list" where
  "enabled_values GetNamespace kvs =
     map Value (List.map_filter GetNamespace (map fst (filter snd kvs)))"

definition or_all :: "int list \<Rightarrow> int" where
  "or_all vs = foldr (OR) vs 0"

text \<open>
  The example of the specification: \<^verbatim>\<open>NEWNET\<close> registered as \<^verbatim>\<open>0x40000000\<close> and
  enabled, \<^verbatim>\<open>bogus\<close> enabled but not registered, \<^verbatim>\<open>NEWPID\<close> registered and disabled.
\<close>

definition example_registry :: registry where
  "example_registry key =
     (if key = ''NEWNET'' then Some \<lparr>Key = ''NEWNET'', Value = 0x40000000, File = ''net''\<rparr>
      else if key = ''NEWPID'' then Some \<lparr>Key = ''NEWPID'', Value = 0x20000000, File = ''pid''\<rparr>
      else None)"

definition example_namespaces :: "(string \<times> bool) list" where
  "example_namespaces = [(''NEWNET'', True), (''bogus'', True), (''NEWPID'', False)]"

section \<open>The host: what the launch calls and what it gets back\<close>

text \<open>
  Everything the supervisor does is a call to a collaborator: the terminal, the command,
  the bookkeeping files, the cgroup backends, the network strategies, netlink. The model
  keeps a log of the completed calls, oldest first, each with the value it returned; a
  call made inside a function of the \<^verbatim>\<open>network\<close> package is logged before that
  function's own entry. What a collaborator returns is given by the host, a record of
  functions of the log so far: the same call may succeed at one moment and fail at
  another, and a theorem about every host is a theorem about every behaviour of the
  collaborators.
\<close>

type_synonym pid = int

text \<open>
  A Go \<^verbatim>\<open>error\<close> value. The only thing the code asks of one is whether its dynamic
  type is \<^verbatim>\<open>*exec.ExitError\<close>.
\<close>

datatype error = ExitError | OtherError string

text \<open>Types declared outside the source file, kept to what the code reads of them.\<close>

datatype Cgroup = Cgroup string

datatype ActiveCgroup = ActiveCgroup nat

datatype Strategy = Strategy string

datatype Interface = Interface int string

datatype File = os_File nat

datatype fd = Fd nat | InvalidFd

type_synonym IP = "nat list"

type_synonym IPNet = "nat list \<times> nat list"

type_synonym Context = "(string \<times> string) list"

record Network =
  Type :: string

record NetworkInterface =
  HostIfaceName :: string

record Container =
  Tty :: bool
  Namespaces :: "string \<rightharpoonup> bool"
  Cgroups :: "Cgroup option"
  Networks :: "Network list"
  NetworkInterfaces :: "NetworkInterface list"

datatype event =
    E_NewSyncPipe "error option"
  | E_CreateMasterAndConsole "error + string"
  | E_SetMaster
  | E_createCommand string string string "string list"
  | E_Attach "error option"
  | E_TermClose
  | is_Start: E_Start "error + pid"
  | E_GetProcessStartTime pid "error + string"
  | E_WritePid string pid string "error option"
  | is_DeletePid: E_DeletePid string
  | is_Kill: E_Kill pid
  | is_Wait: E_Wait "error option"
  | is_ExitStatus: E_ExitStatus int
  | is_SyncPipeClose: E_SyncPipeClose
  | E_startCallback
  | E_UseSystemd bool
  | E_systemd_Apply Cgroup pid "ActiveCgroup option \<times> error option"
  | E_fs_Apply Cgroup pid "ActiveCgroup option \<times> error option"
  | E_Cleanup ActiveCgroup
  | E_GetStrategy string "error + Strategy"
  | E_Create Strategy Network pid "error option \<times> Context"
  | E_SendToChild Context "error option"
  | E_OpenFile string "error + File"
  | E_Setns fd "error option"
  | E_InterfaceByName string "error + Interface"
  | E_NetworkLinkUp Interface "error option"
  | E_NetworkLinkDown Interface "error option"
  | E_NetworkSetNsPid Interface pid "error option"
  | E_NetworkLinkAddIp Interface IP IPNet "error option"
  | R_InterfaceUp string "error option"
  | R_InterfaceDown string "error option"
  | R_SetInterfaceInNamespacePid string pid "error option"
  | R_SetInterfaceIp string string "error option"
  | E_Log string

type_synonym trace = "event list"

record host =
  NewSyncPipe :: "trace \<Rightarrow> error option"
  CreateMasterAndConsole :: "trace \<Rightarrow> error + string"
  Attach :: "trace \<Rightarrow> error option"
  Start :: "trace \<Rightarrow> error + pid"
  GetProcessStartTime :: "trace \<Rightarrow> pid \<Rightarrow> error + string"
  WritePid :: "trace \<Rightarrow> string \<Rightarrow> pid \<Rightarrow> string \<Rightarrow> error option"
  Wait :: "trace \<Rightarrow> error option"
  ExitStatus :: "trace \<Rightarrow> int"
  UseSystemd :: "trace \<Rightarrow> bool"
  systemd_Apply :: "trace \<Rightarrow> Cgroup \<Rightarrow> pid \<Rightarrow> ActiveCgroup option \<times> error option"
  fs_Apply :: "trace \<Rightarrow> Cgroup \<Rightarrow> pid \<Rightarrow> ActiveCgroup option \<times> error option"
  GetStrategy :: "trace \<Rightarrow> string \<Rightarrow> error + Strategy"
  Create :: "trace \<Rightarrow> Strategy \<Rightarrow> Network \<Rightarrow> pid \<Rightarrow> Context \<Rightarrow> error option \<times> Context"
  SendToChild :: "trace \<Rightarrow> Context \<Rightarrow> error option"
  OpenFile :: "trace \<Rightarrow> string \<Rightarrow> error + File"
  Setns :: "trace \<Rightarrow> fd \<Rightarrow> error option"
  InterfaceByName :: "trace \<Rightarrow> string \<Rightarrow> error + Interface"
  NetworkLinkUp :: "trace \<Rightarrow> Interface \<Rightarrow> error option"
  NetworkLinkDown :: "trace \<Rightarrow> Interface \<Rightarrow> error option"
  NetworkSetNsPid :: "trace \<Rightarrow> Interface \<Rightarrow> pid \<Rightarrow> error option"
  NetworkLinkAddIp :: "trace \<Rightarrow> Interface \<Rightarrow> IP \<Rightarrow> IPNet \<Rightarrow> error option"
  ParseCIDR :: "string \<Rightarrow> error + IP \<times> IPNet"

section \<open>Package network: operations on named interfaces\<close>

text \<open>
  The four functions of the package that the launch and the properties below use. Each
  looks the interface up by name and, when it exists, makes one netlink call.
\<close>

definition InterfaceUp :: "host \<Rightarrow> string \<Rightarrow> trace \<Rightarrow> error option \<times> trace" where
  "InterfaceUp h name tr =
     (let r = InterfaceByName h tr name; tr = tr @ [E_InterfaceByName name r] in
      case r of
        Inl err \<Rightarrow> (Some err, tr @ [R_InterfaceUp name (Some err)])
      | Inr iface \<Rightarrow>
          (let e = NetworkLinkUp h tr iface; tr = tr @ [E_NetworkLinkUp iface e] in
           (e, tr @ [R_InterfaceUp name e])))"

definition InterfaceDown :: "host \<Rightarrow> string \<Rightarrow> trace \<Rightarrow> error option \<times> trace" where
  "InterfaceDown h name tr =
     (let r = InterfaceByName h tr name; tr = tr @ [E_InterfaceByName name r] in
      case r of
        Inl err \<Rightarrow> (Some err, tr @ [R_InterfaceDown name (Some err)])
      | Inr iface \<Rightarrow>
          (let e = NetworkLinkDown h tr iface; tr = tr @ [E_NetworkLinkDown iface e] in
           (e, tr @ [R_InterfaceDown name e])))"

definition SetInterfaceInNamespacePid ::
  "host \<Rightarrow> string \<Rightarrow> pid \<Rightarrow> trace \<Rightarrow> error option \<times> trace" where
  "SetInterfaceInNamespacePid h name nsPid tr =
     (let tr = tr @ [E_Log ''setting interface my name %s, %d''];
          r = InterfaceByName h tr name; tr = tr @ [E_InterfaceByName name r] in
      case r of
        Inl err \<Rightarrow>
          (let tr = tr @ [E_Log ''error getting interfacebyname %+v''] in
           (Some err, tr @ [R_SetInterfaceInNamespacePid name nsPid (Some err)]))
      | Inr iface \<Rightarrow>
          (let e = NetworkSetNsPid h tr iface nsPid;
               tr = tr @ [E_NetworkSetNsPid iface nsPid e] in
           (e, tr @ [R_SetInterfaceInNamespacePid name nsPid e])))"

definition SetInterfaceIp :: "host \<Rightarrow> string \<Rightarrow> string \<Rightarrow> trace \<Rightarrow> error option \<times> trace" where
  "SetInterfaceIp h name rawIp tr =
     (let r = InterfaceByName h tr name; tr = tr @ [E_InterfaceByName name r] in
      case r of
        Inl err \<Rightarrow> (Some err, tr @ [R_SetInterfaceIp name rawIp (Some err)])
      | Inr iface \<Rightarrow>
          (case ParseCIDR h rawIp of
             Inl err \<Rightarrow> (Some err, tr @ [R_SetInterfaceIp name rawIp (Some err)])
           | Inr (ip, ipNet) \<Rightarrow>
               (let e = NetworkLinkAddIp h tr iface ip ipNet;
                    tr = tr @ [E_NetworkLinkAddIp iface ip ipNet e] in
                (e, tr @ [R_SetInterfaceIp name rawIp e]))))"

text \<open>The calls of the \<^verbatim>\<open>netlink\<close> package: the operations that change an interface.\<close>

fun netlink_op :: "event \<Rightarrow> bool" where
  "netlink_op (E_NetworkLinkUp _ _) = True"
| "netlink_op (E_NetworkLinkDown _ _) = True"
| "netlink_op (E_NetworkSetNsPid _ _ _) = True"
| "netlink_op (E_NetworkLinkAddIp _ _ _ _) = True"
| "netlink_op _ = False"

section \<open>Package namespaces: cgroups and networking around the child\<close>

definition SetupCgroups ::
  "host \<Rightarrow> Container \<Rightarrow> pid \<Rightarrow> trace \<Rightarrow> (ActiveCgroup option \<times> error option) \<times> trace" where
  "SetupCgroups h container nspid tr =
     (case Cgroups container of
        Some c \<Rightarrow>
          (let u = UseSystemd h tr; tr = tr @ [E_UseSystemd u] in
           if u
           then (let r = systemd_Apply h tr c nspid in (r, tr @ [E_systemd_Apply c nspid r]))
           else (let r = fs_Apply h tr c nspid in (r, tr @ [E_fs_Apply c nspid r])))
      | None \<Rightarrow> ((None, None), tr))"

text \<open>The first loop of \<^verbatim>\<open>InitializeNetworking\<close>: one strategy for each network.\<close>

fun InitializeNetworking_strategies ::
  "host \<Rightarrow> pid \<Rightarrow> Network list \<Rightarrow> Context \<Rightarrow> trace \<Rightarrow> error option \<times> Context \<times> trace" where
  "InitializeNetworking_strategies h nspid [] context tr = (None, context, tr)"
| "InitializeNetworking_strategies h nspid (config # rest) context tr =
     (let r = GetStrategy h tr (Type config); tr = tr @ [E_GetStrategy (Type config) r] in
      case r of
        Inl err \<Rightarrow> (Some err, context, tr)
      | Inr strategy \<Rightarrow>
          (let c = Create h tr strategy config nspid context;
               tr = tr @ [E_Create strategy config nspid c] in
           case fst c of
             Some err \<Rightarrow> (Some err, snd c, tr)
           | None \<Rightarrow> InitializeNetworking_strategies h nspid rest (snd c) tr))"

text \<open>A log line after a call, written only when the call returned an error.\<close>

definition log_if_failed :: "error option \<Rightarrow> string list \<Rightarrow> trace \<Rightarrow> trace" where
  "log_if_failed err lines tr = (if err \<noteq> None then tr @ map E_Log lines else tr)"

text \<open>The second loop: down, into the namespace of the child, up.\<close>

fun InitializeNetworking_interfaces ::
  "host \<Rightarrow> pid \<Rightarrow> NetworkInterface list \<Rightarrow> trace \<Rightarrow> trace" where
  "InitializeNetworking_interfaces h nspid [] tr = tr"
| "InitializeNetworking_interfaces h nspid (net_iface # rest) tr =
     (let tr = tr @ [E_Log ''setting up %+v''];
          d = InterfaceDown h (HostIfaceName net_iface) tr;
          tr = log_if_failed (fst d) [''interface down failed for %s''] (snd d);
          s = SetInterfaceInNamespacePid h (HostIfaceName net_iface) nspid tr;
          tr = log_if_failed (fst s)
                 [''failed to set interface into namespace pid of %d, named %s'',
                  ''error was %+v''] (snd s);
          u = InterfaceUp h (HostIfaceName net_iface) tr;
          tr = log_if_failed (fst u) [''interface up failed for %s''] (snd u)
      in InitializeNetworking_interfaces h nspid rest tr)"

definition InitializeNetworking ::
  "host \<Rightarrow> Container \<Rightarrow> pid \<Rightarrow> trace \<Rightarrow> error option \<times> trace" where
  "InitializeNetworking h container nspid tr =
     (case InitializeNetworking_strategies h nspid (Networks container) [] tr of
        (Some err, context, tr) \<Rightarrow> (Some err, tr)
      | (None, context, tr) \<Rightarrow>
          (let tr = InitializeNetworking_interfaces h nspid (NetworkInterfaces container) tr;
               e = SendToChild h tr context
           in (e, tr @ [E_SendToChild context e])))"

text \<open>\<^verbatim>\<open>%d\<close> of a process id, for the path of its namespace file.\<close>

fun decimal :: "nat \<Rightarrow> string" where
  "decimal n =
     (if n < 10 then [''0123456789'' ! n]
      else decimal (n div 10) @ [''0123456789'' ! (n mod 10)])"

declare decimal.simps [simp del]

definition Sprintf_d :: "int \<Rightarrow> string" where
  "Sprintf_d i = (if i < 0 then ''-'' @ decimal (nat (- i)) else decimal (nat i))"

text \<open>
  \<^verbatim>\<open>Fd\<close> of the file a failed \<^verbatim>\<open>os.OpenFile\<close> left nil is the invalid descriptor
  (all bits set); the code goes on with it.
\<close>

definition Fd_of :: "error + File \<Rightarrow> fd" where
  "Fd_of r = (case r of Inl err \<Rightarrow> InvalidFd | Inr (os_File n) \<Rightarrow> Fd n)"

text \<open>The loop of \<^verbatim>\<open>TeardownNetworking\<close>: down, back to the namespace of pid 1, up.\<close>

fun TeardownNetworking_interfaces ::
  "host \<Rightarrow> pid \<Rightarrow> NetworkInterface list \<Rightarrow> trace \<Rightarrow> trace" where
  "TeardownNetworking_interfaces h nspid [] tr = tr"
| "TeardownNetworking_interfaces h nspid (net_iface # rest) tr =
     (let tr = tr @ [E_Log ''tearing down %+v''];
          d = InterfaceDown h (HostIfaceName net_iface) tr;
          tr = log_if_failed (fst d) [''interface down failed for %s''] (snd d);
          s = SetInterfaceInNamespacePid h (HostIfaceName net_iface) 1 tr;
          tr = log_if_failed (fst s)
                 [''failed to set interface into namespace pid of %d, named %s'',
                  ''unable to set interface namespace pid %+v''] (snd s);
          u = InterfaceUp h (HostIfaceName net_iface) tr;
          tr = log_if_failed (fst u) [''interface up failed for %s''] (snd u)
      in TeardownNetworking_interfaces h nspid rest tr)"

definition TeardownNetworking :: "host \<Rightarrow> Container \<Rightarrow> pid \<Rightarrow> trace \<Rightarrow> trace" where
  "TeardownNetworking h container nspid tr =
     (let original = OpenFile h tr ''/proc/self/net/ns'';
          tr = tr @ [E_OpenFile ''/proc/self/net/ns'' original];
          tr = (case original of
                  Inl err \<Rightarrow> tr @ [E_Log ''unable to open self proc %+v'']
                | Inr f \<Rightarrow> tr);
          path = ''/proc/'' @ Sprintf_d nspid @ ''/net/ns'';
          running = OpenFile h tr path;
          tr = tr @ [E_OpenFile path running];
          tr = (case running of
                  Inl err \<Rightarrow> tr @ [E_Log ''unable to open %d proc %+v'']
                | Inr f \<Rightarrow> tr);
          e = Setns h tr (Fd_of running);
          tr = tr @ [E_Setns (Fd_of running) e];
          tr = log_if_failed e [''unable to set ns to pid proc %+v''] tr;
          tr = tr @ [E_Log ''namespace set to pid''];
          tr = TeardownNetworking_interfaces h nspid (NetworkInterfaces container) tr
      in case original of
           Inl err \<Rightarrow> tr
         | Inr f \<Rightarrow>
             (let e = Setns h tr (Fd_of original);
                  tr = tr @ [E_Setns (Fd_of original) e]
              in log_if_failed e [''unable to set ns to self proc %+v''] tr))"

section \<open>The launch: Exec\<close>

text \<open>
  A \<^verbatim>\<open>defer\<close> statement pushes a call on the stack of the function; when the function
  returns, after its results are fixed, the stack is run from the top.
\<close>

datatype deferred =
    D_TermClose
  | D_DeletePid string
  | D_Cleanup ActiveCgroup
  | D_TeardownNetworking Container pid

fun run_deferred :: "host \<Rightarrow> deferred \<Rightarrow> trace \<Rightarrow> trace" where
  "run_deferred h D_TermClose tr = tr @ [E_TermClose]"
| "run_deferred h (D_DeletePid dataPath) tr = tr @ [E_DeletePid dataPath]"
| "run_deferred h (D_Cleanup cleaner) tr = tr @ [E_Cleanup cleaner]"
| "run_deferred h (D_TeardownNetworking container nspid) tr =
     TeardownNetworking h container nspid tr"

fun run_defers :: "host \<Rightarrow> deferred list \<Rightarrow> trace \<Rightarrow> trace" where
  "run_defers h [] tr = tr"
| "run_defers h (d # ds) tr = run_defers h ds (run_deferred h d tr)"

text \<open>\<^verbatim>\<open>command.Process.Kill(); command.Wait()\<close>, both results dropped.\<close>

definition kill_and_wait :: "host \<Rightarrow> pid \<Rightarrow> trace \<Rightarrow> trace" where
  "kill_and_wait h p tr = (let tr = tr @ [E_Kill p]; w = Wait h tr in tr @ [E_Wait w])"

text \<open>
  The body of \<^verbatim>\<open>Exec\<close> from \<^verbatim>\<open>createCommand\<close> on, with the console the terminal
  block left. It returns the results, the stack of deferred calls and the log.
  \<open>startCallback\<close> is true when the caller passed a callback.
\<close>

definition Exec_command ::
  "host \<Rightarrow> Container \<Rightarrow> string \<Rightarrow> string \<Rightarrow> string list \<Rightarrow> bool \<Rightarrow> string \<Rightarrow> trace
     \<Rightarrow> (int \<times> error option) \<times> deferred list \<times> trace" where
  "Exec_command h container rootfs dataPath args startCallback console tr =
     (let tr = tr @ [E_createCommand console rootfs dataPath args];
          a = Attach h tr; tr = tr @ [E_Attach a] in
      case a of
        Some err \<Rightarrow> ((- 1, Some err), [], tr)
      | None \<Rightarrow>
     (let ds = [D_TermClose];
          s = Start h tr; tr = tr @ [E_Start s] in
      case s of
        Inl err \<Rightarrow> ((- 1, Some err), ds, tr)
      | Inr p \<Rightarrow>
     (let g = GetProcessStartTime h tr p; tr = tr @ [E_GetProcessStartTime p g] in
      case g of
        Inl err \<Rightarrow> ((- 1, Some err), ds, tr)
      | Inr started \<Rightarrow>
     (let w = WritePid h tr dataPath p started;
          tr = tr @ [E_WritePid dataPath p started w] in
      case w of
        Some err \<Rightarrow> ((- 1, Some err), ds, kill_and_wait h p tr)
      | None \<Rightarrow>
     (let ds = D_DeletePid dataPath # ds;
          cg = SetupCgroups h container p tr; tr = snd cg in
      case snd (fst cg) of
        Some err \<Rightarrow> ((- 1, Some err), ds, kill_and_wait h p tr)
      | None \<Rightarrow>
     (let ds = (case fst (fst cg) of Some cleaner \<Rightarrow> D_Cleanup cleaner # ds | None \<Rightarrow> ds);
          n = InitializeNetworking h container p tr; tr = snd n in
      case fst n of
        Some err \<Rightarrow> ((- 1, Some err), ds, kill_and_wait h p tr)
      | None \<Rightarrow>
     (let ds = D_TeardownNetworking container p # ds;
          tr = tr @ [E_SyncPipeClose];
          tr = (if startCallback then tr @ [E_startCallback] else tr);
          tr = tr @ [E_Log ''before execing container, pid is %d''];
          w = Wait h tr; tr = tr @ [E_Wait w] in
      if (case w of Some err \<Rightarrow> err \<noteq> ExitError | None \<Rightarrow> False)
      then ((- 1, w), ds, tr)
      else
        (let tr = tr @ [E_Log ''done execing container, pid is %d''];
             code = ExitStatus h tr
         in ((code, None), ds, tr @ [E_ExitStatus code])))))))))"

definition Exec_body ::
  "host \<Rightarrow> Container \<Rightarrow> string \<Rightarrow> string \<Rightarrow> string list \<Rightarrow> bool
     \<Rightarrow> (int \<times> error option) \<times> deferred list \<times> trace" where
  "Exec_body h container rootfs dataPath args startCallback =
     (let p = NewSyncPipe h []; tr = [E_NewSyncPipe p] in
      case p of
        Some err \<Rightarrow> ((- 1, Some err), [], tr)
      | None \<Rightarrow>
          if Tty container
          then
            (let m = CreateMasterAndConsole h tr; tr = tr @ [E_CreateMasterAndConsole m] in
             case m of
               Inl err \<Rightarrow> ((- 1, Some err), [], tr)
             | Inr console \<Rightarrow>
                 Exec_command h container rootfs dataPath args startCallback console
                   (tr @ [E_SetMaster]))
          else Exec_command h container rootfs dataPath args startCallback [] tr)"

definition Exec ::
  "host \<Rightarrow> Container \<Rightarrow> string \<Rightarrow> string \<Rightarrow> string list \<Rightarrow> bool
     \<Rightarrow> (int \<times> error option) \<times> trace" where
  "Exec h container rootfs dataPath args startCallback =
     (case Exec_body h container rootfs dataPath args startCallback of
        (result, ds, tr) \<Rightarrow> (result, run_defers h ds tr))"

section \<open>Reading the log\<close>

text \<open>
  The calls of \<^verbatim>\<open>Exec\<close> itself on the pipe, the terminal, the command and the pid
  file: the steps of the launch. Everything else in the log (cgroups, networking, log
  lines) is made by the functions \<^verbatim>\<open>Exec\<close> calls.
\<close>

fun lifecycle :: "event \<Rightarrow> bool" where
  "lifecycle (E_NewSyncPipe _) = True"
| "lifecycle (E_CreateMasterAndConsole _) = True"
| "lifecycle E_SetMaster = True"
| "lifecycle (E_createCommand _ _ _ _) = True"
| "lifecycle (E_Attach _) = True"
| "lifecycle E_TermClose = True"
| "lifecycle (E_Start _) = True"
| "lifecycle (E_GetProcessStartTime _ _) = True"
| "lifecycle (E_WritePid _ _ _ _) = True"
| "lifecycle (E_DeletePid _) = True"
| "lifecycle (E_Kill _) = True"
| "lifecycle (E_Wait _) = True"
| "lifecycle (E_ExitStatus _) = True"
| "lifecycle E_SyncPipeClose = True"
| "lifecycle E_startCallback = True"
| "lifecycle _ = False"

text \<open>
  \<open>extends tr tr'\<close>: the log \<open>tr'\<close> is \<open>tr\<close> followed by calls that are no steps of the
  launch. Cgroup setup, network setup and network teardown extend the log in this sense.
\<close>

definition background :: "event \<Rightarrow> bool" where
  "background e \<longleftrightarrow> \<not> lifecycle e"

definition extends :: "trace \<Rightarrow> trace \<Rightarrow> bool" where
  "extends tr tr' \<longleftrightarrow> (\<exists>new. tr' = tr @ new \<and> list_all background new)"

section \<open>The paths through Exec\<close>

text \<open>
  Names for the pieces of a log of \<^verbatim>\<open>Exec\<close>: the calls up to the creation of the
  command, the calls from attaching the terminal to the written pid file, the callback,
  and the cleanup of the cgroup handle, as deferred call and as logged call.
\<close>

definition cleanup_events :: "ActiveCgroup option \<Rightarrow> trace" where
  "cleanup_events cleaner = (case cleaner of Some x \<Rightarrow> [E_Cleanup x] | None \<Rightarrow> [])"

definition cleanup_defers :: "ActiveCgroup option \<Rightarrow> deferred list" where
  "cleanup_defers cleaner = (case cleaner of Some x \<Rightarrow> [D_Cleanup x] | None \<Rightarrow> [])"

definition callback_events :: "bool \<Rightarrow> trace" where
  "callback_events startCallback = (if startCallback then [E_startCallback] else [])"

definition recorded :: "string \<Rightarrow> pid \<Rightarrow> string \<Rightarrow> trace" where
  "recorded dataPath p started =
     [E_Attach None, E_Start (Inr p), E_GetProcessStartTime p (Inr started),
      E_WritePid dataPath p started None]"

definition prelude :: "Container \<Rightarrow> string \<Rightarrow> string \<Rightarrow> string \<Rightarrow> string list \<Rightarrow> trace" where
  "prelude c console rootfs dataPath args =
     E_NewSyncPipe None #
     (if Tty c then [E_CreateMasterAndConsole (Inr console), E_SetMaster] else []) @
     [E_createCommand console rootfs dataPath args]"

text \<open>The calls of a cgroup backend.\<close>

fun backend_call :: "event \<Rightarrow> bool" where
  "backend_call (E_systemd_Apply _ _ _) = True"
| "backend_call (E_fs_Apply _ _ _) = True"
| "backend_call _ = False"

text \<open>The calls that build or move the network of the child.\<close>

fun networking :: "event \<Rightarrow> bool" where
  "networking (E_GetStrategy _ _) = True"
| "networking (E_Create _ _ _ _) = True"
| "networking (E_SendToChild _ _) = True"
| "networking (E_Setns _ _) = True"
| "networking (E_InterfaceByName _ _) = True"
| "networking (E_NetworkLinkUp _ _) = True"
| "networking (E_NetworkLinkDown _ _) = True"
| "networking (E_NetworkSetNsPid _ _ _) = True"
| "networking (E_NetworkLinkAddIp _ _ _ _) = True"
| "networking (R_InterfaceUp _ _) = True"
| "networking (R_InterfaceDown _ _) = True"
| "networking (R_SetInterfaceInNamespacePid _ _ _) = True"
| "networking (R_SetInterfaceIp _ _ _) = True"
| "networking _ = False"

text \<open>The context payload handed to the child without error: the last call of a successful network setup.\<close>

fun sent :: "event \<Rightarrow> bool" where
  "sent (E_SendToChild _ None) = True"
| "sent _ = False"

text \<open>
  The returns of the three relocation steps, without what they returned: the steps that
  were carried out, in order. \<open>relocation nsPid ifaces\<close> is the full sequence for a list of
  interface bindings: down, into the namespace of \<open>nsPid\<close>, up, for each in turn.
\<close>

datatype step = Down string | IntoNamespace string pid | Up string

fun step_of :: "event \<Rightarrow> step option" where
  "step_of (R_InterfaceDown name _) = Some (Down name)"
| "step_of (R_SetInterfaceInNamespacePid name nsPid _) = Some (IntoNamespace name nsPid)"
| "step_of (R_InterfaceUp name _) = Some (Up name)"
| "step_of _ = None"

fun steps :: "trace \<Rightarrow> step list" where
  "steps [] = []"
| "steps (e # es) = (case step_of e of Some s \<Rightarrow> s # steps es | None \<Rightarrow> steps es)"

definition relocation :: "pid \<Rightarrow> NetworkInterface list \<Rightarrow> step list" where
  "relocation nsPid ifaces =
     concat (map (\<lambda>i. [Down (HostIfaceName i), IntoNamespace (HostIfaceName i) nsPid,
                        Up (HostIfaceName i)]) ifaces)"

text \<open>
  What the two loops report of a step: its return and, when it returned an error, the
  log lines the loop writes for it. \<open>failure_lines\<close> are those log lines, \<open>reported\<close>
  keeps the returns of the steps and those lines, and \<open>step_report second (s, r)\<close> is
  what the loop leaves in the log for step \<open>s\<close> returning \<open>r\<close>; \<open>second\<close> is the second line
  written for a failed move, which differs between setup and teardown.
\<close>

definition failure_lines :: "string list" where
  "failure_lines =
     [''interface down failed for %s'',
      ''failed to set interface into namespace pid of %d, named %s'',
      ''error was %+v'',
      ''unable to set interface namespace pid %+v'',
      ''interface up failed for %s'']"

fun reported :: "event \<Rightarrow> bool" where
  "reported (R_InterfaceDown _ _) = True"
| "reported (R_SetInterfaceInNamespacePid _ _ _) = True"
| "reported (R_InterfaceUp _ _) = True"
| "reported (E_Log line) = (line \<in> set failure_lines)"
| "reported _ = False"

fun step_report :: "string \<Rightarrow> step \<times> error option \<Rightarrow> trace" where
  "step_report second (Down name, r) =
     R_InterfaceDown name r #
     (if r \<noteq> None then [E_Log ''interface down failed for %s''] else [])"
| "step_report second (IntoNamespace name nsPid, r) =
     R_SetInterfaceInNamespacePid name nsPid r #
     (if r \<noteq> None
      then [E_Log ''failed to set interface into namespace pid of %d, named %s'', E_Log second]
      else [])"
| "step_report second (Up name, r) =
     R_InterfaceUp name r #
     (if r \<noteq> None then [E_Log ''interface up failed for %s''] else [])"

section \<open>Example hosts\<close>

text \<open>
  A host on which every call succeeds and the child exits with status 0, a container
  that asks for nothing, and a container with a terminal, a cgroup, one network and two
  interface bindings, the second of which (\<^verbatim>\<open>eth9\<close>) does not exist on the host.
\<close>

definition ok_host :: host where
  "ok_host =
     \<lparr> NewSyncPipe = (\<lambda>tr. None),
       CreateMasterAndConsole = (\<lambda>tr. Inr ''/dev/pts/3''),
       Attach = (\<lambda>tr. None),
       Start = (\<lambda>tr. Inr 4242),
       GetProcessStartTime = (\<lambda>tr p. Inr ''8675309''),
       WritePid = (\<lambda>tr d p s. None),
       Wait = (\<lambda>tr. None),
       ExitStatus = (\<lambda>tr. 0),
       UseSystemd = (\<lambda>tr. False),
       systemd_Apply = (\<lambda>tr c p. (Some (ActiveCgroup 1), None)),
       fs_Apply = (\<lambda>tr c p. (Some (ActiveCgroup 2), None)),
       GetStrategy = (\<lambda>tr t. if t = ''veth'' then Inr (Strategy t)
                               else Inl (OtherError ''unknown network type'')),
       Create = (\<lambda>tr s n p ctx. (None, ctx)),
       SendToChild = (\<lambda>tr ctx. None),
       OpenFile = (\<lambda>tr path. Inr (os_File 7)),
       Setns = (\<lambda>tr d. None),
       InterfaceByName = (\<lambda>tr n. if n = ''eth1'' then Inr (Interface 2 ''eth1'')
                                    else Inl (OtherError ''no such network interface'')),
       NetworkLinkUp = (\<lambda>tr i. None),
       NetworkLinkDown = (\<lambda>tr i. None),
       NetworkSetNsPid = (\<lambda>tr i p. None),
       NetworkLinkAddIp = (\<lambda>tr i a n. None),
       ParseCIDR = (\<lambda>s. if s = ''10.0.0.2/24''
                          then Inr ([10, 0, 0, 2], ([10, 0, 0, 0], [255, 255, 255, 0]))
                          else Inl (OtherError ''invalid CIDR address'')) \<rparr>"

definition plain_container :: Container where
  "plain_container =
     \<lparr> Tty = False, Namespaces = Map.empty, Cgroups = None, Networks = [],
       NetworkInterfaces = [] \<rparr>"

definition full_container :: Container where
  "full_container =
     \<lparr> Tty = True, Namespaces = [''NEWNET'' \<mapsto> True], Cgroups = Some (Cgroup ''docker''),
       Networks = [\<lparr>Type = ''veth''\<rparr>],
       NetworkInterfaces = [\<lparr>HostIfaceName = ''eth1''\<rparr>, \<lparr>HostIfaceName = ''eth9''\<rparr>] \<rparr>"

text \<open>Hosts that differ from \<open>ok_host\<close> in one or two answers.\<close>

definition no_start_time_host :: host where
  "no_start_time_host =
     ok_host \<lparr> GetProcessStartTime := (\<lambda>tr p. Inl (OtherError ''no such process'')) \<rparr>"

definition exit_17_host :: host where
  "exit_17_host = ok_host \<lparr> Wait := (\<lambda>tr. Some ExitError), ExitStatus := (\<lambda>tr. 17) \<rparr>"

definition no_pid_file_host :: host where
  "no_pid_file_host = ok_host \<lparr> WritePid := (\<lambda>tr d p s. Some (OtherError ''read-only file system'')) \<rparr>"

definition no_terminal_host :: host where
  "no_terminal_host =
     ok_host \<lparr> CreateMasterAndConsole := (\<lambda>tr. Inl (OtherError ''no ptmx'')) \<rparr>"

definition lost_child_host :: host where
  "lost_child_host = ok_host \<lparr> Wait := (\<lambda>tr. Some (OtherError ''wait: no child processes'')) \<rparr>"

definition systemd_host :: host where
  "systemd_host = ok_host \<lparr> UseSystemd := (\<lambda>tr. True) \<rparr>"

chapter \<open>What the program does\<close>

section \<open>Properties: namespace flag resolver\<close>

lemma GetNamespaceFlags_loop_bit:
  "bit (GetNamespaceFlags_loop reg kvs flag) n \<longleftrightarrow>
     bit flag n \<or> (\<exists>key ns. (key, True) \<in> set kvs \<and> reg key = Some ns \<and> bit (Value ns) n)"
proof (induction kvs arbitrary: flag)
  case Nil
  then show ?case by simp
next
  case (Cons kv kvs)
  obtain key enabled where kv: "kv = (key, enabled)" by (cases kv)
  show ?case
  proof (cases enabled)
    case False
    with kv Cons.IH show ?thesis by auto
  next
    case True
    show ?thesis
    proof (cases "reg key")
      case None
      with kv True Cons.IH show ?thesis by auto
    next
      case (Some ns)
      with kv True Cons.IH show ?thesis by (auto simp: bit_or_iff)
    qed
  qed
qed

lemma or_all_bit:
  "bit (or_all vs) n \<longleftrightarrow> (\<exists>v \<in> set vs. bit v n)"
  by (induction vs) (auto simp: or_all_def bit_or_iff)

lemma enabled_values_set:
  "set (enabled_values reg kvs) = {Value ns | key ns. (key, True) \<in> set kvs \<and> reg key = Some ns}"
  by (force simp: enabled_values_def List.map_filter_def image_iff)

lemma range_order_mem:
  "range_order m kvs \<Longrightarrow> (key, b) \<in> set kvs \<longleftrightarrow> m key = Some b"
  by (auto simp: range_order_def)

lemma GetNamespaceFlags_bit:
  assumes "range_order namespaces kvs"
  shows "bit (GetNamespaceFlags reg kvs) n \<longleftrightarrow>
           (\<exists>key ns. namespaces key = Some True \<and> reg key = Some ns \<and> bit (Value ns) n)"
  using range_order_mem [OF assms]
  by (simp add: GetNamespaceFlags_def GetNamespaceFlags_loop_bit)

lemma GetNamespaceFlags_or_all:
  "GetNamespaceFlags reg kvs = or_all (enabled_values reg kvs)"
proof (rule bit_eqI)
  fix n
  show "bit (GetNamespaceFlags reg kvs) n \<longleftrightarrow> bit (or_all (enabled_values reg kvs)) n"
    unfolding GetNamespaceFlags_def GetNamespaceFlags_loop_bit or_all_bit enabled_values_set
    by auto
qed

text \<open>
  Claim C2. For every mapping \<open>namespaces\<close> from namespace name to enabled/disabled and
  every order \<open>kvs\<close> in which the loop may visit it, \<open>GetNamespaceFlags\<close> returns the
  bitwise OR of the registered values of the enabled, recognized names: a bit is set in
  the result exactly when it is set in the value of such a name, and the result is the
  OR of the list of those values. Disabled entries and names the registry does not know
  contribute nothing and there is no error result at all; any other visiting order of
  the same mapping gives the same flags; the empty mapping gives 0.
\<close>

theorem GetNamespaceFlags_or_of_enabled_registered:
  assumes "range_order namespaces kvs"
  shows "(\<forall>n. bit (GetNamespaceFlags reg kvs) n \<longleftrightarrow>
            (\<exists>key ns. namespaces key = Some True \<and> reg key = Some ns \<and> bit (Value ns) n))
       \<and> GetNamespaceFlags reg kvs = or_all (enabled_values reg kvs)
       \<and> (\<forall>kvs'. range_order namespaces kvs' \<longrightarrow>
            GetNamespaceFlags reg kvs' = GetNamespaceFlags reg kvs)
       \<and> (namespaces = Map.empty \<longrightarrow> GetNamespaceFlags reg kvs = 0)"
proof (intro conjI allI impI)
  fix n
  show "bit (GetNamespaceFlags reg kvs) n \<longleftrightarrow>
          (\<exists>key ns. namespaces key = Some True \<and> reg key = Some ns \<and> bit (Value ns) n)"
    by (rule GetNamespaceFlags_bit [OF assms])
next
  show "GetNamespaceFlags reg kvs = or_all (enabled_values reg kvs)"
    by (rule GetNamespaceFlags_or_all)
next
  fix kvs'
  assume other: "range_order namespaces kvs'"
  show "GetNamespaceFlags reg kvs' = GetNamespaceFlags reg kvs"
    by (rule bit_eqI) (simp add: GetNamespaceFlags_bit [OF other] GetNamespaceFlags_bit [OF assms])
next
  assume "namespaces = Map.empty"
  then have "\<And>n. \<not> bit (GetNamespaceFlags reg kvs) n"
    by (simp add: GetNamespaceFlags_bit [OF assms])
  then show "GetNamespaceFlags reg kvs = 0"
    by (intro bit_eqI) simp
qed

theorem GetNamespaceFlags_or_of_enabled_registered_witness:
  "range_order (map_of example_namespaces) example_namespaces
   \<and> GetNamespaceFlags example_registry example_namespaces = 0x40000000
   \<and> GetNamespaceFlags example_registry (rev example_namespaces)
       = GetNamespaceFlags example_registry example_namespaces"
proof -
  have ord: "range_order (map_of example_namespaces) example_namespaces"
    by (simp add: range_order_def example_namespaces_def)
  have ord': "range_order (map_of example_namespaces) (rev example_namespaces)"
    by (simp add: range_order_def example_namespaces_def fun_eq_iff)
  have val: "or_all (enabled_values example_registry example_namespaces) = 0x40000000"
    by (simp add: or_all_def enabled_values_def example_namespaces_def example_registry_def
        List.map_filter_def)
  from GetNamespaceFlags_or_of_enabled_registered [OF ord, of example_registry] ord' val ord
  show ?thesis by simp
qed

section \<open>Properties: what each part adds to the log\<close>

lemma extends_refl: "extends tr tr"
  by (simp add: extends_def)

lemma extends_trans: "extends a b \<Longrightarrow> extends b c \<Longrightarrow> extends a c"
  by (auto simp: extends_def)

lemma extends_app: "extends a b \<Longrightarrow> list_all background es \<Longrightarrow> extends a (b @ es)"
  by (auto simp: extends_def)

lemma extends_log: "extends a b \<Longrightarrow> extends a (log_if_failed e ls b)"
  by (auto simp: log_if_failed_def extends_def list_all_iff background_def)

lemma InterfaceDown_extends: "extends a b \<Longrightarrow> extends a (snd (InterfaceDown h name b))"
  unfolding InterfaceDown_def Let_def
  by (auto split: sum.splits intro!: extends_app simp: background_def)

lemma InterfaceUp_extends: "extends a b \<Longrightarrow> extends a (snd (InterfaceUp h name b))"
  unfolding InterfaceUp_def Let_def
  by (auto split: sum.splits intro!: extends_app simp: background_def)

lemma SetInterfaceInNamespacePid_extends:
  "extends a b \<Longrightarrow> extends a (snd (SetInterfaceInNamespacePid h name p b))"
  unfolding SetInterfaceInNamespacePid_def Let_def
  by (auto split: sum.splits intro!: extends_app simp: background_def)

lemmas step_extends =
  extends_log InterfaceUp_extends SetInterfaceInNamespacePid_extends InterfaceDown_extends

lemma InitializeNetworking_interfaces_extends:
  "extends a b \<Longrightarrow> extends a (InitializeNetworking_interfaces h p ifs b)"
proof (induction ifs arbitrary: b)
  case Nil
  then show ?case by simp
next
  case (Cons i ifs)
  have "extends a (b @ [E_Log ''setting up %+v''])"
    using Cons.prems by (rule extends_app) (simp add: background_def)
  then show ?case
    unfolding InitializeNetworking_interfaces.simps Let_def
    by (intro Cons.IH step_extends)
qed

lemma TeardownNetworking_interfaces_extends:
  "extends a b \<Longrightarrow> extends a (TeardownNetworking_interfaces h p ifs b)"
proof (induction ifs arbitrary: b)
  case Nil
  then show ?case by simp
next
  case (Cons i ifs)
  have "extends a (b @ [E_Log ''tearing down %+v''])"
    using Cons.prems by (rule extends_app) (simp add: background_def)
  then show ?case
    unfolding TeardownNetworking_interfaces.simps Let_def
    by (intro Cons.IH step_extends)
qed

lemma InitializeNetworking_strategies_extends:
  "extends a b \<Longrightarrow> extends a (snd (snd (InitializeNetworking_strategies h p ns ctx b)))"
proof (induction ns arbitrary: ctx b)
  case Nil
  then show ?case by simp
next
  case (Cons n ns)
  let ?g = "GetStrategy h b (Type n)"
  have g: "extends a (b @ [E_GetStrategy (Type n) ?g])"
    using Cons.prems by (rule extends_app) (simp add: background_def)
  show ?case
  proof (cases ?g)
    case (Inl err)
    with g show ?thesis by (simp add: Let_def)
  next
    case (Inr strategy)
    let ?b = "b @ [E_GetStrategy (Type n) (Inr strategy)]"
    let ?c = "Create h ?b strategy n p ctx"
    have c: "extends a (?b @ [E_Create strategy n p ?c])"
    proof (rule extends_app)
      show "extends a ?b" using g Inr by simp
    qed (simp add: background_def)
    show ?thesis
    proof (cases "fst ?c")
      case None
      with Inr Cons.IH [OF c] show ?thesis by (simp add: Let_def)
    next
      case (Some err)
      with Inr c show ?thesis by (simp add: Let_def)
    qed
  qed
qed

lemma InitializeNetworking_extends:
  "extends a b \<Longrightarrow> extends a (snd (InitializeNetworking h c p b))"
proof -
  assume ab: "extends a b"
  obtain err ctx tr where s: "InitializeNetworking_strategies h p (Networks c) [] b = (err, ctx, tr)"
    by (cases "InitializeNetworking_strategies h p (Networks c) [] b") auto
  from InitializeNetworking_strategies_extends [OF ab, of h p "Networks c" "[]"] s
  have tr: "extends a tr" by simp
  show ?thesis
  proof (cases err)
    case (Some e)
    with s tr show ?thesis by (simp add: InitializeNetworking_def)
  next
    case None
    have "extends a (InitializeNetworking_interfaces h p (NetworkInterfaces c) tr @
            [E_SendToChild ctx (SendToChild h
               (InitializeNetworking_interfaces h p (NetworkInterfaces c) tr) ctx)])"
      by (intro extends_app InitializeNetworking_interfaces_extends tr) (simp add: background_def)
    with None s show ?thesis by (simp add: InitializeNetworking_def Let_def)
  qed
qed

lemma SetupCgroups_extends:
  "extends a b \<Longrightarrow> extends a (snd (SetupCgroups h c p b))"
  unfolding SetupCgroups_def Let_def
  by (auto split: option.splits intro!: extends_app simp: background_def)

lemma TeardownNetworking_extends:
  "extends a b \<Longrightarrow> extends a (TeardownNetworking h c p b)"
  unfolding TeardownNetworking_def Let_def
  by (auto split: sum.splits
      intro!: extends_app extends_log TeardownNetworking_interfaces_extends
      simp: background_def)

section \<open>Properties: the paths through Exec\<close>

lemma Exec_command_cases
  [consumes 1, case_names attach start start_time write_pid cgroup network wait exited]:
  assumes run: "Exec_command h c rootfs dataPath args cb console tr0 = (r, ds, tr)"
  obtains
    (attach) err where
      "r = (- 1, Some err)" "ds = []"
      "tr = tr0 @ [E_createCommand console rootfs dataPath args, E_Attach (Some err)]"
  | (start) err where
      "r = (- 1, Some err)" "ds = [D_TermClose]"
      "tr = tr0 @ [E_createCommand console rootfs dataPath args, E_Attach None,
                   E_Start (Inl err)]"
  | (start_time) p err where
      "r = (- 1, Some err)" "ds = [D_TermClose]"
      "tr = tr0 @ [E_createCommand console rootfs dataPath args, E_Attach None,
                   E_Start (Inr p), E_GetProcessStartTime p (Inl err)]"
  | (write_pid) p started err w where
      "r = (- 1, Some err)" "ds = [D_TermClose]"
      "tr = tr0 @ [E_createCommand console rootfs dataPath args, E_Attach None,
                   E_Start (Inr p), E_GetProcessStartTime p (Inr started),
                   E_WritePid dataPath p started (Some err), E_Kill p, E_Wait w]"
  | (cgroup) p started cleaner err tr1 w where
      "r = (- 1, Some err)" "ds = [D_DeletePid dataPath, D_TermClose]"
      "SetupCgroups h c p
         (tr0 @ E_createCommand console rootfs dataPath args # recorded dataPath p started)
       = ((cleaner, Some err), tr1)"
      "tr = tr1 @ [E_Kill p, E_Wait w]"
  | (network) p started cleaner tr1 err tr2 w where
      "r = (- 1, Some err)"
      "ds = cleanup_defers cleaner @ [D_DeletePid dataPath, D_TermClose]"
      "SetupCgroups h c p
         (tr0 @ E_createCommand console rootfs dataPath args # recorded dataPath p started)
       = ((cleaner, None), tr1)"
      "InitializeNetworking h c p tr1 = (Some err, tr2)"
      "tr = tr2 @ [E_Kill p, E_Wait w]"
  | (wait) p started cleaner tr1 tr2 err where
      "r = (- 1, Some err)" "err \<noteq> ExitError"
      "ds = D_TeardownNetworking c p # cleanup_defers cleaner
              @ [D_DeletePid dataPath, D_TermClose]"
      "SetupCgroups h c p
         (tr0 @ E_createCommand console rootfs dataPath args # recorded dataPath p started)
       = ((cleaner, None), tr1)"
      "InitializeNetworking h c p tr1 = (None, tr2)"
      "tr = tr2 @ E_SyncPipeClose # callback_events cb
              @ [E_Log ''before execing container, pid is %d'', E_Wait (Some err)]"
  | (exited) p started cleaner tr1 tr2 w code where
      "r = (code, None)" "w = None \<or> w = Some ExitError"
      "ds = D_TeardownNetworking c p # cleanup_defers cleaner
              @ [D_DeletePid dataPath, D_TermClose]"
      "SetupCgroups h c p
         (tr0 @ E_createCommand console rootfs dataPath args # recorded dataPath p started)
       = ((cleaner, None), tr1)"
      "InitializeNetworking h c p tr1 = (None, tr2)"
      "tr = tr2 @ E_SyncPipeClose # callback_events cb
              @ [E_Log ''before execing container, pid is %d'', E_Wait w,
                 E_Log ''done execing container, pid is %d'', E_ExitStatus code]"
proof -
  let ?t0 = "tr0 @ [E_createCommand console rootfs dataPath args]"
  show thesis
  proof (cases "Attach h ?t0")
    case (Some err)
    with run show thesis by (intro attach) (auto simp: Exec_command_def Let_def)
  next
    case a: None
    let ?t1 = "?t0 @ [E_Attach None]"
    show thesis
    proof (cases "Start h ?t1")
      case (Inl err)
      with run a show thesis
        by (intro start) (auto simp: Exec_command_def Let_def)
    next
      case s: (Inr p)
      let ?t2 = "?t1 @ [E_Start (Inr p)]"
      show thesis
      proof (cases "GetProcessStartTime h ?t2 p")
        case (Inl err)
        with run a s show thesis
          by (intro start_time) (auto simp: Exec_command_def Let_def)
      next
        case g: (Inr started)
        let ?t3 = "?t2 @ [E_GetProcessStartTime p (Inr started)]"
        show thesis
        proof (cases "WritePid h ?t3 dataPath p started")
          case (Some err)
          with run a s g show thesis
            by (intro write_pid) (auto simp: Exec_command_def Let_def kill_and_wait_def)
        next
          case w: None
          let ?t4 = "?t3 @ [E_WritePid dataPath p started None]"
          have t4: "?t4 = tr0 @ E_createCommand console rootfs dataPath args # recorded dataPath p started"
            by (simp add: recorded_def)
          obtain cleaner cerr tr1 where cg: "SetupCgroups h c p ?t4 = ((cleaner, cerr), tr1)"
            by (cases "SetupCgroups h c p ?t4") auto
          show thesis
          proof (cases cerr)
            case (Some err)
            with run a s g w cg show thesis
              by (intro cgroup [of err p started cleaner tr1]) (auto simp: Exec_command_def Let_def kill_and_wait_def t4 [symmetric])
          next
            case ce: None
            obtain nerr tr2 where n: "InitializeNetworking h c p tr1 = (nerr, tr2)"
              by (cases "InitializeNetworking h c p tr1") auto
            show thesis
            proof (cases nerr)
              case (Some err)
              with run a s g w cg ce n show thesis
                by (intro network [of err cleaner p started tr1 tr2]) (auto simp: Exec_command_def Let_def kill_and_wait_def t4 [symmetric]
                      cleanup_defers_def split: option.splits)
            next
              case ne: None
              let ?t5 = "tr2 @ E_SyncPipeClose # callback_events cb
                           @ [E_Log ''before execing container, pid is %d'']"
              have t5: "(if cb then (tr2 @ [E_SyncPipeClose]) @ [E_startCallback]
                         else tr2 @ [E_SyncPipeClose]) @ rest
                        = tr2 @ E_SyncPipeClose # callback_events cb @ rest" for rest
                by (simp add: callback_events_def)
              show thesis
              proof (cases "case Wait h ?t5 of Some err \<Rightarrow> err \<noteq> ExitError | None \<Rightarrow> False")
                case True
                then obtain err where e: "Wait h ?t5 = Some err" "err \<noteq> ExitError"
                  by (auto split: option.splits)
                with run a s g w cg ce n ne show thesis
                  by (intro wait [of err p cleaner started tr1 tr2]) (auto simp: Exec_command_def Let_def t4 [symmetric]
                        cleanup_defers_def t5 split: option.splits)
              next
                case False
                then have e: "Wait h ?t5 = None \<or> Wait h ?t5 = Some ExitError"
                  by (auto split: option.splits)
                let ?code = "ExitStatus h (?t5 @ [E_Wait (Wait h ?t5),
                               E_Log ''done execing container, pid is %d''])"
                from False run a s g w cg ce n ne show thesis
                  by (intro exited [of ?code "Wait h ?t5" p cleaner started tr1 tr2] e)
                     (simp_all add: Exec_command_def Let_def t4 [symmetric]
                        cleanup_defers_def t5 split: option.splits)
              qed
            qed
          qed
        qed
      qed
    qed
  qed
qed

lemma run_defers_append:
  "run_defers h (ds @ ds') tr = run_defers h ds' (run_defers h ds tr)"
  by (induction ds arbitrary: tr) simp_all

lemma run_defers_cleanup:
  "run_defers h (cleanup_defers cleaner) tr = tr @ cleanup_events cleaner"
  by (simp add: cleanup_defers_def cleanup_events_def split: option.splits)

lemma extendsD: "extends a b \<Longrightarrow> \<exists>new. b = a @ new \<and> list_all background new"
  by (simp add: extends_def)

lemma Exec_body_cases [consumes 1, case_names pipe tty command]:
  assumes "Exec_body h c rootfs dataPath args cb = x"
  obtains
    (pipe) err where "x = ((- 1, Some err), [], [E_NewSyncPipe (Some err)])"
  | (tty) err where "Tty c"
      "x = ((- 1, Some err), [], [E_NewSyncPipe None, E_CreateMasterAndConsole (Inl err)])"
  | (command) console tr0 where
      "tr0 @ [E_createCommand console rootfs dataPath args] = prelude c console rootfs dataPath args"
      "x = Exec_command h c rootfs dataPath args cb console tr0"
proof (cases "NewSyncPipe h []")
  case (Some err)
  with assms show thesis by (intro pipe [of err]) (simp add: Exec_body_def Let_def)
next
  case p: None
  show thesis
  proof (cases "Tty c")
    case False
    with assms p show thesis
      by (intro command [of "[E_NewSyncPipe None]" "[]"]) (simp_all add: Exec_body_def Let_def prelude_def)
  next
    case True
    show thesis
    proof (cases "CreateMasterAndConsole h [E_NewSyncPipe None]")
      case (Inl err)
      with assms p True show thesis by (intro tty [of err]) (simp_all add: Exec_body_def Let_def)
    next
      case (Inr console)
      with assms p True show thesis
        by (intro command [of "[E_NewSyncPipe None, E_CreateMasterAndConsole (Inr console), E_SetMaster]" console])
           (simp_all add: Exec_body_def Let_def prelude_def)
    qed
  qed
qed

lemma Exec_cases
  [consumes 1, case_names pipe tty attach start start_time write_pid cgroup network wait exited]:
  assumes run: "Exec h c rootfs dataPath args cb = (r, tr)"
  obtains
    (pipe) err where
      "r = (- 1, Some err)" "tr = [E_NewSyncPipe (Some err)]"
  | (tty) err where
      "Tty c" "r = (- 1, Some err)"
      "tr = [E_NewSyncPipe None, E_CreateMasterAndConsole (Inl err)]"
  | (attach) console err where
      "r = (- 1, Some err)"
      "tr = prelude c console rootfs dataPath args @ [E_Attach (Some err)]"
  | (start) console err where
      "r = (- 1, Some err)"
      "tr = prelude c console rootfs dataPath args
              @ [E_Attach None, E_Start (Inl err), E_TermClose]"
  | (start_time) console p err where
      "r = (- 1, Some err)"
      "tr = prelude c console rootfs dataPath args
              @ [E_Attach None, E_Start (Inr p), E_GetProcessStartTime p (Inl err),
                 E_TermClose]"
  | (write_pid) console p started err w where
      "r = (- 1, Some err)"
      "tr = prelude c console rootfs dataPath args
              @ [E_Attach None, E_Start (Inr p), E_GetProcessStartTime p (Inr started),
                 E_WritePid dataPath p started (Some err), E_Kill p, E_Wait w, E_TermClose]"
  | (cgroup) console p started cleaner err cg w where
      "r = (- 1, Some err)"
      "SetupCgroups h c p
         (prelude c console rootfs dataPath args @ recorded dataPath p started)
       = ((cleaner, Some err),
          prelude c console rootfs dataPath args @ recorded dataPath p started @ cg)"
      "list_all background cg"
      "tr = prelude c console rootfs dataPath args @ recorded dataPath p started @ cg
              @ [E_Kill p, E_Wait w, E_DeletePid dataPath, E_TermClose]"
  | (network) console p started cleaner cg err net w where
      "r = (- 1, Some err)"
      "SetupCgroups h c p
         (prelude c console rootfs dataPath args @ recorded dataPath p started)
       = ((cleaner, None),
          prelude c console rootfs dataPath args @ recorded dataPath p started @ cg)"
      "InitializeNetworking h c p
         (prelude c console rootfs dataPath args @ recorded dataPath p started @ cg)
       = (Some err,
          prelude c console rootfs dataPath args @ recorded dataPath p started @ cg @ net)"
      "list_all background cg" "list_all background net"
      "tr = prelude c console rootfs dataPath args @ recorded dataPath p started @ cg @ net
              @ [E_Kill p, E_Wait w] @ cleanup_events cleaner
              @ [E_DeletePid dataPath, E_TermClose]"
  | (wait) console p started cleaner cg net err down where
      "r = (- 1, Some err)" "err \<noteq> ExitError"
      "SetupCgroups h c p
         (prelude c console rootfs dataPath args @ recorded dataPath p started)
       = ((cleaner, None),
          prelude c console rootfs dataPath args @ recorded dataPath p started @ cg)"
      "InitializeNetworking h c p
         (prelude c console rootfs dataPath args @ recorded dataPath p started @ cg)
       = (None,
          prelude c console rootfs dataPath args @ recorded dataPath p started @ cg @ net)"
      "list_all background cg" "list_all background net" "list_all background down"
      "tr = prelude c console rootfs dataPath args @ recorded dataPath p started @ cg @ net
              @ E_SyncPipeClose # callback_events cb
              @ [E_Log ''before execing container, pid is %d'', E_Wait (Some err)]
              @ down @ cleanup_events cleaner @ [E_DeletePid dataPath, E_TermClose]"
  | (exited) console p started cleaner cg net w code down where
      "r = (code, None)" "w = None \<or> w = Some ExitError"
      "SetupCgroups h c p
         (prelude c console rootfs dataPath args @ recorded dataPath p started)
       = ((cleaner, None),
          prelude c console rootfs dataPath args @ recorded dataPath p started @ cg)"
      "InitializeNetworking h c p
         (prelude c console rootfs dataPath args @ recorded dataPath p started @ cg)
       = (None,
          prelude c console rootfs dataPath args @ recorded dataPath p started @ cg @ net)"
      "list_all background cg" "list_all background net" "list_all background down"
      "tr = prelude c console rootfs dataPath args @ recorded dataPath p started @ cg @ net
              @ E_SyncPipeClose # callback_events cb
              @ [E_Log ''before execing container, pid is %d'', E_Wait w,
                 E_Log ''done execing container, pid is %d'', E_ExitStatus code]
              @ down @ cleanup_events cleaner @ [E_DeletePid dataPath, E_TermClose]"
proof -
  obtain ds tr' where body: "Exec_body h c rootfs dataPath args cb = (r, ds, tr')"
    and tr: "tr = run_defers h ds tr'"
    using run by (auto simp: Exec_def split: prod.splits)
  from body show thesis
  proof (cases rule: Exec_body_cases)
    case (pipe err)
    with tr show thesis by (intro that(1) [of err]) simp_all
  next
    case (tty err)
    with tr show thesis by (intro that(2) [of err]) simp_all
  next
    case (command console tr0)
    let ?P = "prelude c console rootfs dataPath args"
    have P: "tr0 @ E_createCommand console rootfs dataPath args # xs = ?P @ xs" for xs
      using command(1) by (metis append.assoc append_Cons append_Nil)
    from command(2) [symmetric] show thesis
    proof (cases rule: Exec_command_cases)
      case (attach err)
      with tr P show thesis by (intro that(3) [of err console]) simp_all
    next
      case (start err)
      with tr P show thesis by (intro that(4) [of err console]) simp_all
    next
      case (start_time p err)
      with tr P show thesis by (intro that(5) [of err console p]) simp_all
    next
      case (write_pid p started err w)
      with tr P show thesis by (intro that(6) [of err console p started w]) simp_all
    next
      case (cgroup p started cleaner err tr1 w)
      let ?L = "?P @ recorded dataPath p started"
      from cgroup(3) have s: "SetupCgroups h c p ?L = ((cleaner, Some err), tr1)"
        by (simp add: P)
      from SetupCgroups_extends [OF extends_refl, of ?L h c p] s
      obtain cg where cg: "tr1 = ?L @ cg" "list_all background cg"
        by (auto dest: extendsD)
      with tr cgroup s show thesis
        by (intro that(7) [of err p console started cleaner cg w]) simp_all
    next
      case (network p started cleaner tr1 err tr2 w)
      let ?L = "?P @ recorded dataPath p started"
      from network(3) have s: "SetupCgroups h c p ?L = ((cleaner, None), tr1)"
        by (simp add: P)
      from SetupCgroups_extends [OF extends_refl, of ?L h c p] s
      obtain cg where cg: "tr1 = ?L @ cg" "list_all background cg"
        by (auto dest: extendsD)
      from InitializeNetworking_extends [OF extends_refl, of tr1 h c p] network(4)
      obtain net where net: "tr2 = tr1 @ net" "list_all background net"
        by (auto dest: extendsD)
      with tr network s cg show thesis
        by (intro that(8) [of err p console started cleaner cg net w])
           (simp_all add: run_defers_append run_defers_cleanup)
    next
      case (wait p started cleaner tr1 tr2 err)
      let ?L = "?P @ recorded dataPath p started"
      from wait(4) have s: "SetupCgroups h c p ?L = ((cleaner, None), tr1)"
        by (simp add: P)
      from SetupCgroups_extends [OF extends_refl, of ?L h c p] s
      obtain cg where cg: "tr1 = ?L @ cg" "list_all background cg"
        by (auto dest: extendsD)
      from InitializeNetworking_extends [OF extends_refl, of tr1 h c p] wait(5)
      obtain net where net: "tr2 = tr1 @ net" "list_all background net"
        by (auto dest: extendsD)
      from TeardownNetworking_extends [OF extends_refl, of tr' h c p]
      obtain down where down: "TeardownNetworking h c p tr' = tr' @ down"
        "list_all background down"
        by (auto dest: extendsD)
      with tr wait s cg net show thesis
        by (intro that(9) [of err p console started cleaner cg net down])
           (simp_all add: run_defers_append run_defers_cleanup)
    next
      case (exited p started cleaner tr1 tr2 w code)
      let ?L = "?P @ recorded dataPath p started"
      from exited(4) have s: "SetupCgroups h c p ?L = ((cleaner, None), tr1)"
        by (simp add: P)
      from SetupCgroups_extends [OF extends_refl, of ?L h c p] s
      obtain cg where cg: "tr1 = ?L @ cg" "list_all background cg"
        by (auto dest: extendsD)
      from InitializeNetworking_extends [OF extends_refl, of tr1 h c p] exited(5)
      obtain net where net: "tr2 = tr1 @ net" "list_all background net"
        by (auto dest: extendsD)
      from TeardownNetworking_extends [OF extends_refl, of tr' h c p]
      obtain down where down: "TeardownNetworking h c p tr' = tr' @ down"
        "list_all background down"
        by (auto dest: extendsD)
      with tr exited s cg net show thesis
        by (intro that(10) [of code w p console started cleaner cg net down])
           (simp_all add: run_defers_append run_defers_cleanup)
    qed
  qed
qed

lemma background_filter:
  assumes "list_all background xs" and "\<And>e. P e \<Longrightarrow> lifecycle e"
  shows "filter P xs = []"
  using assms by (auto simp: filter_empty_conv list_all_iff background_def)

lemma background_not_mem:
  "list_all background xs \<Longrightarrow> lifecycle e \<Longrightarrow> e \<notin> set xs"
  by (auto simp: list_all_iff background_def)

lemma lifecycle_discs:
  "is_Start e \<Longrightarrow> lifecycle e" "is_DeletePid e \<Longrightarrow> lifecycle e" "is_Kill e \<Longrightarrow> lifecycle e"
  "is_Wait e \<Longrightarrow> lifecycle e" "is_ExitStatus e \<Longrightarrow> lifecycle e"
  "is_SyncPipeClose e \<Longrightarrow> lifecycle e"
  by (cases e; simp)+

lemma background_discs [simp]:
  assumes "list_all background xs"
  shows "filter is_Start xs = []" "filter is_DeletePid xs = []" "filter is_Kill xs = []"
    "filter is_Wait xs = []" "filter is_ExitStatus xs = []" "filter is_SyncPipeClose xs = []"
  by (rule background_filter [OF assms], erule lifecycle_discs)+

lemma cleanup_events_background [simp]: "list_all background (cleanup_events cleaner)"
  by (simp add: cleanup_events_def background_def split: option.splits)

lemmas path_defs = prelude_def recorded_def callback_events_def

section \<open>The example runs\<close>

lemmas Exec_simps = Exec_def Exec_body_def Exec_command_def kill_and_wait_def SetupCgroups_def
  InitializeNetworking_def TeardownNetworking_def InterfaceUp_def InterfaceDown_def
  SetInterfaceInNamespacePid_def log_if_failed_def Fd_of_def Let_def

lemma no_start_time_run:
  "Exec no_start_time_host plain_container ''/rootfs'' ''/data'' [''sh''] False =
     ((- 1, Some (OtherError ''no such process'')),
      [E_NewSyncPipe None, E_createCommand [] ''/rootfs'' ''/data'' [''sh''],
       E_Attach None, E_Start (Inr 4242),
       E_GetProcessStartTime 4242 (Inl (OtherError ''no such process'')), E_TermClose])"
  by (simp add: Exec_simps no_start_time_host_def ok_host_def plain_container_def)

lemma exit_17_run:
  "Exec exit_17_host plain_container ''/rootfs'' ''/data'' [''sh''] False =
     ((17, None),
      [E_NewSyncPipe None, E_createCommand [] ''/rootfs'' ''/data'' [''sh''],
       E_Attach None, E_Start (Inr 4242), E_GetProcessStartTime 4242 (Inr ''8675309''),
       E_WritePid ''/data'' 4242 ''8675309'' None, E_SendToChild [] None, E_SyncPipeClose,
       E_Log ''before execing container, pid is %d'', E_Wait (Some ExitError),
       E_Log ''done execing container, pid is %d'', E_ExitStatus 17,
       E_OpenFile ''/proc/self/net/ns'' (Inr (os_File 7)),
       E_OpenFile ''/proc/4242/net/ns'' (Inr (os_File 7)),
       E_Setns (Fd 7) None, E_Log ''namespace set to pid'', E_Setns (Fd 7) None,
       E_DeletePid ''/data'', E_TermClose])"
  by (simp add: Exec_simps exit_17_host_def ok_host_def plain_container_def Sprintf_d_def
      decimal.simps)

lemma no_pid_file_run:
  "Exec no_pid_file_host plain_container ''/rootfs'' ''/data'' [''sh''] False =
     ((- 1, Some (OtherError ''read-only file system'')),
      [E_NewSyncPipe None, E_createCommand [] ''/rootfs'' ''/data'' [''sh''],
       E_Attach None, E_Start (Inr 4242), E_GetProcessStartTime 4242 (Inr ''8675309''),
       E_WritePid ''/data'' 4242 ''8675309'' (Some (OtherError ''read-only file system'')),
       E_Kill 4242, E_Wait None, E_TermClose])"
  by (simp add: Exec_simps no_pid_file_host_def ok_host_def plain_container_def)

lemma no_terminal_run:
  "Exec no_terminal_host full_container ''/rootfs'' ''/data'' [''sh''] False =
     ((- 1, Some (OtherError ''no ptmx'')),
      [E_NewSyncPipe None, E_CreateMasterAndConsole (Inl (OtherError ''no ptmx''))])"
  by (simp add: Exec_simps no_terminal_host_def ok_host_def full_container_def)

lemma lost_child_run:
  "Exec lost_child_host plain_container ''/rootfs'' ''/data'' [''sh''] True =
     ((- 1, Some (OtherError ''wait: no child processes'')),
      [E_NewSyncPipe None, E_createCommand [] ''/rootfs'' ''/data'' [''sh''],
       E_Attach None, E_Start (Inr 4242), E_GetProcessStartTime 4242 (Inr ''8675309''),
       E_WritePid ''/data'' 4242 ''8675309'' None, E_SendToChild [] None, E_SyncPipeClose,
       E_startCallback, E_Log ''before execing container, pid is %d'',
       E_Wait (Some (OtherError ''wait: no child processes'')),
       E_OpenFile ''/proc/self/net/ns'' (Inr (os_File 7)),
       E_OpenFile ''/proc/4242/net/ns'' (Inr (os_File 7)),
       E_Setns (Fd 7) None, E_Log ''namespace set to pid'', E_Setns (Fd 7) None,
       E_DeletePid ''/data'', E_TermClose])"
  by (simp add: Exec_simps lost_child_host_def ok_host_def plain_container_def Sprintf_d_def
      decimal.simps)

section \<open>Properties: results and exit codes of Exec\<close>

text \<open>
  Claim C9. Whenever \<open>Exec\<close> returns an error, the integer it returns is -1, and the
  exit status of the child has not even been read. The exit status is read, once, only
  in the runs that return no error, and then it is the integer returned.
\<close>

theorem Exec_error_code:
  assumes run: "Exec h c rootfs dataPath args cb = ((code, err), tr)"
  shows "(err \<noteq> None \<longrightarrow> code = - 1 \<and> filter is_ExitStatus tr = [])
       \<and> (err = None \<longrightarrow> filter is_ExitStatus tr = [E_ExitStatus code])"
  using run
  by (cases rule: Exec_cases) (simp_all add: path_defs)

theorem Exec_error_code_witness:
  "fst (Exec lost_child_host plain_container ''/rootfs'' ''/data'' [''sh''] True)
     = (- 1, Some (OtherError ''wait: no child processes''))
   \<and> filter is_ExitStatus
        (snd (Exec lost_child_host plain_container ''/rootfs'' ''/data'' [''sh''] True)) = []
   \<and> fst (Exec exit_17_host plain_container ''/rootfs'' ''/data'' [''sh''] False) = (17, None)
   \<and> filter is_ExitStatus
        (snd (Exec exit_17_host plain_container ''/rootfs'' ''/data'' [''sh''] False))
       = [E_ExitStatus 17]"
  using Exec_error_code [OF lost_child_run] Exec_error_code [OF exit_17_run]
  by (simp add: lost_child_run exit_17_run)

text \<open>
  Claim C4. In a run that waits on a child it has not killed, that is, the wait that
  follows the release of the child: when the wait returns no error or an exit-status
  error, \<open>Exec\<close> returns the exit status read from the child, whatever its value, and no
  error; when the wait returns any other error, \<open>Exec\<close> returns -1 and that error.
\<close>

theorem Exec_wait_result:
  assumes run: "Exec h c rootfs dataPath args cb = ((code, err), tr)"
    and waited: "E_Wait w \<in> set tr"
    and not_killed: "filter is_Kill tr = []"
  shows "(w = None \<or> w = Some ExitError \<longrightarrow> err = None \<and> E_ExitStatus code \<in> set tr)
       \<and> (\<forall>e. w = Some e \<and> e \<noteq> ExitError \<longrightarrow> code = - 1 \<and> err = Some e)"
  using run waited not_killed
  by (cases rule: Exec_cases)
     (auto simp: path_defs background_not_mem cleanup_events_def split: if_splits option.splits)

theorem Exec_wait_result_witness:
  "Exec exit_17_host plain_container ''/rootfs'' ''/data'' [''sh''] False
     = ((17, None), snd (Exec exit_17_host plain_container ''/rootfs'' ''/data'' [''sh''] False))
   \<and> E_Wait (Some ExitError)
       \<in> set (snd (Exec exit_17_host plain_container ''/rootfs'' ''/data'' [''sh''] False))
   \<and> filter is_Kill
       (snd (Exec exit_17_host plain_container ''/rootfs'' ''/data'' [''sh''] False)) = []
   \<and> E_ExitStatus 17
       \<in> set (snd (Exec exit_17_host plain_container ''/rootfs'' ''/data'' [''sh''] False))
   \<and> E_Wait (Some (OtherError ''wait: no child processes''))
       \<in> set (snd (Exec lost_child_host plain_container ''/rootfs'' ''/data'' [''sh''] True))
   \<and> filter is_Kill
       (snd (Exec lost_child_host plain_container ''/rootfs'' ''/data'' [''sh''] True)) = []
   \<and> fst (Exec lost_child_host plain_container ''/rootfs'' ''/data'' [''sh''] True)
       = (- 1, Some (OtherError ''wait: no child processes''))"
proof -
  let ?tr = "snd (Exec exit_17_host plain_container ''/rootfs'' ''/data'' [''sh''] False)"
  let ?tr' = "snd (Exec lost_child_host plain_container ''/rootfs'' ''/data'' [''sh''] True)"
  have run: "Exec exit_17_host plain_container ''/rootfs'' ''/data'' [''sh''] False
               = ((17, None), ?tr)"
    by (simp only: exit_17_run snd_conv)
  have waited: "E_Wait (Some ExitError) \<in> set ?tr"
    by (simp only: exit_17_run snd_conv) simp
  have not_killed: "filter is_Kill ?tr = []"
    by (simp only: exit_17_run snd_conv) simp
  have run': "Exec lost_child_host plain_container ''/rootfs'' ''/data'' [''sh''] True
               = ((- 1, Some (OtherError ''wait: no child processes'')), ?tr')"
    by (simp only: lost_child_run snd_conv)
  have waited': "E_Wait (Some (OtherError ''wait: no child processes'')) \<in> set ?tr'"
    by (simp only: lost_child_run snd_conv) simp
  have not_killed': "filter is_Kill ?tr' = []"
    by (simp only: lost_child_run snd_conv) simp
  have result': "fst (Exec lost_child_host plain_container ''/rootfs'' ''/data'' [''sh''] True)
                   = (- 1, Some (OtherError ''wait: no child processes''))"
    by (simp only: lost_child_run fst_conv)
  from Exec_wait_result [OF run waited not_killed]
    Exec_wait_result [OF run' waited' not_killed']
  have "E_ExitStatus 17 \<in> set ?tr" by simp
  with run waited not_killed waited' not_killed' result'
  show ?thesis by (intro conjI)
qed

section \<open>Properties: the child after a failed setup step\<close>

text \<open>
  A launch that was aborted after the start time of the child had been read, that is,
  at the pid file, at the cgroups or at the network, kills the child once and waits on
  it once, in that order, and returns -1 with an error.
\<close>

lemma background_kill_wait:
  "list_all background xs \<Longrightarrow> filter (\<lambda>e. is_Kill e \<or> is_Wait e) xs = []"
  by (rule background_filter) (auto dest: lifecycle_discs)

lemma Exec_abort_kills_and_waits_once:
  assumes run: "Exec h c rootfs dataPath args cb = ((code, err), tr)"
    and started: "E_GetProcessStartTime p (Inr started) \<in> set tr"
    and aborted: "filter is_SyncPipeClose tr = []"
  shows "code = - 1 \<and> err \<noteq> None
       \<and> (\<exists>w. filter (\<lambda>e. is_Kill e \<or> is_Wait e) tr = [E_Kill p, E_Wait w])"
  using run started aborted
  by (cases rule: Exec_cases)
     (auto simp: path_defs background_not_mem cleanup_events_def background_kill_wait
        split: if_splits option.splits)

text \<open>Once the pid file is written, every path out of \<open>Exec\<close> deletes it, once.\<close>

lemma Exec_deletes_pid_file:
  assumes run: "Exec h c rootfs dataPath args cb = (r, tr)"
    and written: "E_WritePid d p started None \<in> set tr"
  shows "d = dataPath \<and> filter is_DeletePid tr = [E_DeletePid dataPath]"
  using run written
  by (cases rule: Exec_cases)
     (auto simp: path_defs background_not_mem cleanup_events_def split: if_splits option.splits)

text \<open>
  Claim C1. The claim asks that a failure at the record step, after the child has
  started, kills the child and waits on it before \<open>Exec\<close> returns. The record step begins
  with reading the start time of the child, and when that read fails the code returns at
  once: in every run in which \<^verbatim>\<open>GetProcessStartTime\<close> fails, the child has been
  started, \<open>Exec\<close> returns -1 with that error, and the log holds no kill and no wait.
\<close>

theorem Exec_start_time_failure:
  assumes run: "Exec h c rootfs dataPath args cb = (r, tr)"
    and failed: "E_GetProcessStartTime p (Inl err) \<in> set tr"
  shows "E_Start (Inr p) \<in> set tr \<and> r = (- 1, Some err)
       \<and> filter is_Kill tr = [] \<and> filter is_Wait tr = []"
  using run failed
  by (cases rule: Exec_cases)
     (auto simp: path_defs background_not_mem cleanup_events_def split: if_splits option.splits)

theorem Exec_start_time_failure_witness:
  "E_GetProcessStartTime 4242 (Inl (OtherError ''no such process''))
     \<in> set (snd (Exec no_start_time_host plain_container ''/rootfs'' ''/data'' [''sh''] False))
   \<and> E_Start (Inr 4242)
     \<in> set (snd (Exec no_start_time_host plain_container ''/rootfs'' ''/data'' [''sh''] False))
   \<and> fst (Exec no_start_time_host plain_container ''/rootfs'' ''/data'' [''sh''] False)
       = (- 1, Some (OtherError ''no such process''))
   \<and> filter is_Kill
        (snd (Exec no_start_time_host plain_container ''/rootfs'' ''/data'' [''sh''] False)) = []
   \<and> filter is_Wait
        (snd (Exec no_start_time_host plain_container ''/rootfs'' ''/data'' [''sh''] False)) = []"
proof -
  have failed: "E_GetProcessStartTime 4242 (Inl (OtherError ''no such process''))
     \<in> set [E_NewSyncPipe None, E_createCommand [] ''/rootfs'' ''/data'' [''sh''],
       E_Attach None, E_Start (Inr 4242),
       E_GetProcessStartTime 4242 (Inl (OtherError ''no such process'')), E_TermClose]"
    by simp
  from Exec_start_time_failure [OF no_start_time_run failed] failed
  show ?thesis by (simp add: no_start_time_run)
qed

section \<open>Properties: cgroup application\<close>

text \<open>
  Claim C3. With no cgroup specification \<open>SetupCgroups\<close> returns a nil handle and a nil
  error and calls nothing. With a specification it asks the host once whether systemd
  manages cgroups and then calls exactly one backend, the systemd one on yes and the
  filesystem one on no, and returns what that backend returned.
\<close>

theorem SetupCgroups_backend:
  "(Cgroups c = None \<longrightarrow> SetupCgroups h c nspid tr = ((None, None), tr))
   \<and> (\<forall>cg. Cgroups c = Some cg \<longrightarrow>
         (UseSystemd h tr \<longrightarrow>
            fst (SetupCgroups h c nspid tr) = systemd_Apply h (tr @ [E_UseSystemd True]) cg nspid
          \<and> snd (SetupCgroups h c nspid tr) =
              tr @ [E_UseSystemd True,
                    E_systemd_Apply cg nspid (fst (SetupCgroups h c nspid tr))])
       \<and> (\<not> UseSystemd h tr \<longrightarrow>
            fst (SetupCgroups h c nspid tr) = fs_Apply h (tr @ [E_UseSystemd False]) cg nspid
          \<and> snd (SetupCgroups h c nspid tr) =
              tr @ [E_UseSystemd False,
                    E_fs_Apply cg nspid (fst (SetupCgroups h c nspid tr))])
       \<and> length (filter backend_call (snd (SetupCgroups h c nspid tr)))
           = Suc (length (filter backend_call tr)))"
  by (simp add: SetupCgroups_def Let_def)

theorem SetupCgroups_backend_witness:
  "SetupCgroups ok_host plain_container 4242 [] = ((None, None), [])
   \<and> SetupCgroups ok_host full_container 4242 [] =
       ((Some (ActiveCgroup 2), None),
        [E_UseSystemd False,
         E_fs_Apply (Cgroup ''docker'') 4242 (Some (ActiveCgroup 2), None)])
   \<and> SetupCgroups systemd_host full_container 4242 [] =
       ((Some (ActiveCgroup 1), None),
        [E_UseSystemd True,
         E_systemd_Apply (Cgroup ''docker'') 4242 (Some (ActiveCgroup 1), None)])"
proof -
  have none: "Cgroups plain_container = None"
    and some: "Cgroups full_container = Some (Cgroup ''docker'')"
    by (simp_all add: plain_container_def full_container_def)
  have fs: "\<not> UseSystemd ok_host []" and sd: "UseSystemd systemd_host []"
    by (simp_all add: ok_host_def systemd_host_def)
  have a: "fs_Apply ok_host [E_UseSystemd False] (Cgroup ''docker'') 4242
             = (Some (ActiveCgroup 2), None)"
    and b: "systemd_Apply systemd_host [E_UseSystemd True] (Cgroup ''docker'') 4242
             = (Some (ActiveCgroup 1), None)"
    by (simp_all add: ok_host_def systemd_host_def)
  from SetupCgroups_backend [of plain_container ok_host 4242 "[]"]
    SetupCgroups_backend [of full_container ok_host 4242 "[]"]
    SetupCgroups_backend [of full_container systemd_host 4242 "[]"]
    none some fs sd a b
  show ?thesis by (simp add: prod_eq_iff)
qed

section \<open>Properties: an address that does not parse\<close>

text \<open>
  Claim C10. When the interface exists and \<^verbatim>\<open>net.ParseCIDR\<close> rejects the address,
  \<open>SetInterfaceIp\<close> returns the error of the parser; the only call it has made is the
  lookup of the interface, and no call of the netlink package: nothing has changed the
  interface.
\<close>

theorem SetInterfaceIp_invalid_address:
  assumes "InterfaceByName h tr name = Inr iface"
    and "ParseCIDR h rawIp = Inl err"
  shows "SetInterfaceIp h name rawIp tr =
           (Some err,
            tr @ [E_InterfaceByName name (Inr iface), R_SetInterfaceIp name rawIp (Some err)])
       \<and> filter netlink_op (snd (SetInterfaceIp h name rawIp tr)) = filter netlink_op tr"
  using assms by (simp add: SetInterfaceIp_def Let_def)

theorem SetInterfaceIp_invalid_address_witness:
  "InterfaceByName ok_host [] ''eth1'' = Inr (Interface 2 ''eth1'')
   \<and> ParseCIDR ok_host ''10.0.0.2/33'' = Inl (OtherError ''invalid CIDR address'')
   \<and> SetInterfaceIp ok_host ''eth1'' ''10.0.0.2/33'' [] =
       (Some (OtherError ''invalid CIDR address''),
        [E_InterfaceByName ''eth1'' (Inr (Interface 2 ''eth1'')),
         R_SetInterfaceIp ''eth1'' ''10.0.0.2/33'' (Some (OtherError ''invalid CIDR address''))])"
proof -
  have i: "InterfaceByName ok_host [] ''eth1'' = Inr (Interface 2 ''eth1'')"
    and p: "ParseCIDR ok_host ''10.0.0.2/33'' = Inl (OtherError ''invalid CIDR address'')"
    by (simp_all add: ok_host_def)
  from SetInterfaceIp_invalid_address [OF i p] i p show ?thesis by simp
qed

section \<open>Properties: relocating the interfaces\<close>

lemma steps_append [simp]: "steps (a @ b) = steps a @ steps b"
  by (induction a) (simp_all split: option.splits)

lemma steps_log_lines [simp]: "steps (map E_Log ls) = []"
  by (induction ls) simp_all

lemma steps_log [simp]: "steps (log_if_failed e ls tr) = steps tr"
  by (simp add: log_if_failed_def)

lemma steps_InterfaceDown [simp]:
  "steps (snd (InterfaceDown h name tr)) = steps tr @ [Down name]"
  by (simp add: InterfaceDown_def Let_def split: sum.splits)

lemma steps_InterfaceUp [simp]:
  "steps (snd (InterfaceUp h name tr)) = steps tr @ [Up name]"
  by (simp add: InterfaceUp_def Let_def split: sum.splits)

lemma steps_SetInterfaceInNamespacePid [simp]:
  "steps (snd (SetInterfaceInNamespacePid h name p tr)) = steps tr @ [IntoNamespace name p]"
  by (simp add: SetInterfaceInNamespacePid_def Let_def split: sum.splits)

lemma steps_InitializeNetworking_interfaces:
  "steps (InitializeNetworking_interfaces h p ifs tr) = steps tr @ relocation p ifs"
  by (induction ifs arbitrary: tr) (simp_all add: relocation_def Let_def)

lemma steps_TeardownNetworking_interfaces:
  "steps (TeardownNetworking_interfaces h p ifs tr) = steps tr @ relocation 1 ifs"
  by (induction ifs arbitrary: tr) (simp_all add: relocation_def Let_def)

lemma steps_TeardownNetworking:
  "steps (TeardownNetworking h c p tr) = steps tr @ relocation 1 (NetworkInterfaces c)"
  by (simp add: TeardownNetworking_def Let_def steps_TeardownNetworking_interfaces
      split: sum.splits)

lemma InitializeNetworking_after_strategies:
  assumes "InitializeNetworking_strategies h p (Networks c) [] tr = (None, ctx, tr1)"
  shows "InitializeNetworking h c p tr =
           (let tr2 = InitializeNetworking_interfaces h p (NetworkInterfaces c) tr1;
                e = SendToChild h tr2 ctx
            in (e, tr2 @ [E_SendToChild ctx e]))"
  using assms by (simp add: InitializeNetworking_def)

lemma reported_InterfaceDown:
  "filter reported (snd (InterfaceDown h name tr))
     = filter reported tr @ [R_InterfaceDown name (fst (InterfaceDown h name tr))]"
  by (simp add: InterfaceDown_def Let_def split: sum.splits)

lemma reported_InterfaceUp:
  "filter reported (snd (InterfaceUp h name tr))
     = filter reported tr @ [R_InterfaceUp name (fst (InterfaceUp h name tr))]"
  by (simp add: InterfaceUp_def Let_def split: sum.splits)

lemma reported_SetInterfaceInNamespacePid:
  "filter reported (snd (SetInterfaceInNamespacePid h name p tr))
     = filter reported tr
       @ [R_SetInterfaceInNamespacePid name p (fst (SetInterfaceInNamespacePid h name p tr))]"
  by (simp add: SetInterfaceInNamespacePid_def Let_def failure_lines_def split: sum.splits)

lemma reported_down_step:
  "filter reported
     (log_if_failed (fst (InterfaceDown h name tr)) [''interface down failed for %s'']
        (snd (InterfaceDown h name tr)))
   = filter reported tr @ step_report second (Down name, fst (InterfaceDown h name tr))"
  by (simp add: reported_InterfaceDown log_if_failed_def failure_lines_def)

lemma reported_up_step:
  "filter reported
     (log_if_failed (fst (InterfaceUp h name tr)) [''interface up failed for %s'']
        (snd (InterfaceUp h name tr)))
   = filter reported tr @ step_report second (Up name, fst (InterfaceUp h name tr))"
  by (simp add: reported_InterfaceUp log_if_failed_def failure_lines_def)

lemma reported_namespace_step:
  assumes "second \<in> set failure_lines"
  shows "filter reported
     (log_if_failed (fst (SetInterfaceInNamespacePid h name p tr))
        [''failed to set interface into namespace pid of %d, named %s'', second]
        (snd (SetInterfaceInNamespacePid h name p tr)))
   = filter reported tr
     @ step_report second (IntoNamespace name p, fst (SetInterfaceInNamespacePid h name p tr))"
  using assms
  by (simp add: reported_SetInterfaceInNamespacePid log_if_failed_def)
     (simp add: failure_lines_def)

lemma reported_InitializeNetworking_interfaces:
  "\<exists>outs. map fst outs = relocation p ifs
     \<and> filter reported (InitializeNetworking_interfaces h p ifs tr)
         = filter reported tr @ concat (map (step_report ''error was %+v'') outs)"
proof (induction ifs arbitrary: tr)
  case Nil
  show ?case by (simp add: relocation_def)
next
  case (Cons i ifs)
  let ?n = "HostIfaceName i"
  let ?t0 = "tr @ [E_Log ''setting up %+v'']"
  let ?d = "InterfaceDown h ?n ?t0"
  let ?t1 = "log_if_failed (fst ?d) [''interface down failed for %s''] (snd ?d)"
  let ?s = "SetInterfaceInNamespacePid h ?n p ?t1"
  let ?t2 = "log_if_failed (fst ?s)
               [''failed to set interface into namespace pid of %d, named %s'',
                ''error was %+v''] (snd ?s)"
  let ?u = "InterfaceUp h ?n ?t2"
  let ?t3 = "log_if_failed (fst ?u) [''interface up failed for %s''] (snd ?u)"
  let ?here = "[(Down ?n, fst ?d), (IntoNamespace ?n p, fst ?s), (Up ?n, fst ?u)]"
  have t0: "filter reported ?t0 = filter reported tr"
    by (simp add: failure_lines_def)
  have second: "''error was %+v'' \<in> set failure_lines"
    by (simp add: failure_lines_def)
  have t3: "filter reported ?t3
              = filter reported tr @ concat (map (step_report ''error was %+v'') ?here)"
    by (simp only: reported_up_step [where second = "''error was %+v''"]
          reported_namespace_step [OF second] reported_down_step [where second = "''error was %+v''"] t0)
       simp
  from Cons.IH [of ?t3] obtain outs where
    outs: "map fst outs = relocation p ifs"
      "filter reported (InitializeNetworking_interfaces h p ifs ?t3)
         = filter reported ?t3 @ concat (map (step_report ''error was %+v'') outs)"
    by blast
  have loop: "InitializeNetworking_interfaces h p (i # ifs) tr
                = InitializeNetworking_interfaces h p ifs ?t3"
    by (simp add: Let_def)
  show ?case
    apply (rule exI [of _ "?here @ outs"])
    apply (simp only: loop outs t3)
    apply (simp add: relocation_def outs [unfolded relocation_def])
    done
qed

lemma reported_TeardownNetworking_interfaces:
  "\<exists>outs. map fst outs = relocation 1 ifs
     \<and> filter reported (TeardownNetworking_interfaces h p ifs tr)
         = filter reported tr
           @ concat (map (step_report ''unable to set interface namespace pid %+v'') outs)"
proof (induction ifs arbitrary: tr)
  case Nil
  show ?case by (simp add: relocation_def)
next
  case (Cons i ifs)
  let ?l = "''unable to set interface namespace pid %+v''"
  let ?n = "HostIfaceName i"
  let ?t0 = "tr @ [E_Log ''tearing down %+v'']"
  let ?d = "InterfaceDown h ?n ?t0"
  let ?t1 = "log_if_failed (fst ?d) [''interface down failed for %s''] (snd ?d)"
  let ?s = "SetInterfaceInNamespacePid h ?n 1 ?t1"
  let ?t2 = "log_if_failed (fst ?s)
               [''failed to set interface into namespace pid of %d, named %s'', ?l] (snd ?s)"
  let ?u = "InterfaceUp h ?n ?t2"
  let ?t3 = "log_if_failed (fst ?u) [''interface up failed for %s''] (snd ?u)"
  let ?here = "[(Down ?n, fst ?d), (IntoNamespace ?n 1, fst ?s), (Up ?n, fst ?u)]"
  have t0: "filter reported ?t0 = filter reported tr"
    by (simp add: failure_lines_def)
  have second: "?l \<in> set failure_lines"
    by (simp add: failure_lines_def)
  have t3: "filter reported ?t3 = filter reported tr @ concat (map (step_report ?l) ?here)"
    by (simp only: reported_up_step [where second = ?l]
          reported_namespace_step [OF second] reported_down_step [where second = ?l] t0)
       simp
  from Cons.IH [of ?t3] obtain outs where
    outs: "map fst outs = relocation 1 ifs"
      "filter reported (TeardownNetworking_interfaces h p ifs ?t3)
         = filter reported ?t3 @ concat (map (step_report ?l) outs)"
    by blast
  have loop: "TeardownNetworking_interfaces h p (i # ifs) tr
                = TeardownNetworking_interfaces h p ifs ?t3"
    by (simp add: Let_def)
  show ?case
    apply (rule exI [of _ "?here @ outs"])
    apply (simp only: loop outs t3)
    apply (simp add: relocation_def outs [unfolded relocation_def])
    done
qed

lemma reported_log_other:
  "set ls \<inter> set failure_lines = {} \<Longrightarrow>
     filter reported (log_if_failed e ls tr) = filter reported tr"
  by (auto simp: log_if_failed_def filter_empty_conv)

lemma reported_TeardownNetworking:
  "\<exists>outs. map fst outs = relocation 1 (NetworkInterfaces c)
     \<and> filter reported (TeardownNetworking h c p tr)
         = filter reported tr
           @ concat (map (step_report ''unable to set interface namespace pid %+v'') outs)"
proof -
  define original where "original = OpenFile h tr ''/proc/self/net/ns''"
  define t1 where "t1 = tr @ [E_OpenFile ''/proc/self/net/ns'' original]"
  define t2 where "t2 = (case original of
      Inl err \<Rightarrow> t1 @ [E_Log ''unable to open self proc %+v'']
    | Inr f \<Rightarrow> t1)"
  define path where "path = ''/proc/'' @ Sprintf_d p @ ''/net/ns''"
  define running where "running = OpenFile h t2 path"
  define t3 where "t3 = t2 @ [E_OpenFile path running]"
  define t4 where "t4 = (case running of
      Inl err \<Rightarrow> t3 @ [E_Log ''unable to open %d proc %+v'']
    | Inr f \<Rightarrow> t3)"
  define e where "e = Setns h t4 (Fd_of running)"
  define t5 where "t5 = t4 @ [E_Setns (Fd_of running) e]"
  define t6 where "t6 = log_if_failed e [''unable to set ns to pid proc %+v''] t5"
  define t7 where "t7 = t6 @ [E_Log ''namespace set to pid'']"
  define t8 where "t8 = TeardownNetworking_interfaces h p (NetworkInterfaces c) t7"
  define e' where "e' = Setns h t8 (Fd_of original)"
  have unfold: "TeardownNetworking h c p tr =
      (case original of
         Inl err \<Rightarrow> t8
       | Inr f \<Rightarrow> log_if_failed e' [''unable to set ns to self proc %+v'']
                    (t8 @ [E_Setns (Fd_of original) e']))"
    unfolding TeardownNetworking_def Let_def original_def t1_def t2_def path_def running_def
      t3_def t4_def e_def t5_def t6_def t7_def t8_def e'_def
    by (rule refl)
  have other: "set [''unable to set ns to pid proc %+v''] \<inter> set failure_lines = {}"
    "set [''unable to set ns to self proc %+v''] \<inter> set failure_lines = {}"
    by (simp_all add: failure_lines_def)
  have line: "''unable to open self proc %+v'' \<notin> set failure_lines"
    "''unable to open %d proc %+v'' \<notin> set failure_lines"
    "''namespace set to pid'' \<notin> set failure_lines"
    by (simp_all add: failure_lines_def)
  have t2: "filter reported t2 = filter reported tr"
    by (simp add: t2_def t1_def line split: sum.splits)
  have t4: "filter reported t4 = filter reported tr"
    by (simp add: t4_def t3_def t2 line split: sum.splits)
  have t7: "filter reported t7 = filter reported tr"
    by (simp add: t7_def t6_def t5_def reported_log_other [OF other(1)] t4 line)
  have whole: "filter reported (TeardownNetworking h c p tr) = filter reported t8"
    by (simp add: unfold reported_log_other [OF other(2)] split: sum.splits)
  from reported_TeardownNetworking_interfaces [of "NetworkInterfaces c" h p t7] t7 whole
  show ?thesis by (simp add: t8_def)
qed

lemma reported_InitializeNetworking:
  assumes "InitializeNetworking_strategies h p (Networks c) [] tr = (None, ctx, tr1)"
  shows "\<exists>outs. map fst outs = relocation p (NetworkInterfaces c)
     \<and> filter reported (snd (InitializeNetworking h c p tr))
         = filter reported tr1 @ concat (map (step_report ''error was %+v'') outs)"
  using reported_InitializeNetworking_interfaces [of p "NetworkInterfaces c" h tr1]
  by (simp add: InitializeNetworking_after_strategies [OF assms] Let_def)

text \<open>
  Claim C7. Whatever the three steps return on each interface, \<open>InitializeNetworking\<close>
  completes down, into the namespace of the child, up for every interface of the list,
  in order, and \<open>TeardownNetworking\<close> completes down, into the namespace of pid 1, up for
  every interface of the list, in order: a failed step stops neither the steps after
  it nor the interfaces after it. A step that returns an error is followed at once by
  the log lines for it, a step that returns none by no such line, and that is all a
  failure leaves behind: once the strategies have succeeded, the error that
  \<open>InitializeNetworking\<close> returns is the one of \<^verbatim>\<open>SendToChild\<close> alone, so a failed step
  does not fail the launch either.
\<close>

theorem interface_steps_best_effort:
  "steps (InitializeNetworking_interfaces h nspid ifaces tr) = steps tr @ relocation nspid ifaces
   \<and> (\<exists>outs. map fst outs = relocation nspid ifaces
         \<and> filter reported (InitializeNetworking_interfaces h nspid ifaces tr)
             = filter reported tr @ concat (map (step_report ''error was %+v'') outs))
   \<and> steps (TeardownNetworking h c nspid tr) = steps tr @ relocation 1 (NetworkInterfaces c)
   \<and> (\<exists>outs. map fst outs = relocation 1 (NetworkInterfaces c)
         \<and> filter reported (TeardownNetworking h c nspid tr)
             = filter reported tr
               @ concat (map (step_report ''unable to set interface namespace pid %+v'') outs))
   \<and> (\<forall>ctx tr1. InitializeNetworking_strategies h nspid (Networks c) [] tr = (None, ctx, tr1) \<longrightarrow>
         steps (snd (InitializeNetworking h c nspid tr))
           = steps tr1 @ relocation nspid (NetworkInterfaces c)
       \<and> (\<exists>outs. map fst outs = relocation nspid (NetworkInterfaces c)
             \<and> filter reported (snd (InitializeNetworking h c nspid tr))
                 = filter reported tr1 @ concat (map (step_report ''error was %+v'') outs))
       \<and> (\<exists>tr2. InitializeNetworking h c nspid tr =
                   (SendToChild h tr2 ctx, tr2 @ [E_SendToChild ctx (SendToChild h tr2 ctx)])))"
proof (intro conjI allI impI)
  show "steps (InitializeNetworking_interfaces h nspid ifaces tr)
          = steps tr @ relocation nspid ifaces"
    by (rule steps_InitializeNetworking_interfaces)
  show "\<exists>outs. map fst outs = relocation nspid ifaces
         \<and> filter reported (InitializeNetworking_interfaces h nspid ifaces tr)
             = filter reported tr @ concat (map (step_report ''error was %+v'') outs)"
    by (rule reported_InitializeNetworking_interfaces)
  show "steps (TeardownNetworking h c nspid tr) = steps tr @ relocation 1 (NetworkInterfaces c)"
    by (rule steps_TeardownNetworking)
  show "\<exists>outs. map fst outs = relocation 1 (NetworkInterfaces c)
         \<and> filter reported (TeardownNetworking h c nspid tr)
             = filter reported tr
               @ concat (map (step_report ''unable to set interface namespace pid %+v'') outs)"
    by (rule reported_TeardownNetworking)
next
  fix ctx tr1
  assume s: "InitializeNetworking_strategies h nspid (Networks c) [] tr = (None, ctx, tr1)"
  show "steps (snd (InitializeNetworking h c nspid tr))
          = steps tr1 @ relocation nspid (NetworkInterfaces c)"
    by (simp add: InitializeNetworking_after_strategies [OF s] Let_def
        steps_InitializeNetworking_interfaces)
  show "\<exists>outs. map fst outs = relocation nspid (NetworkInterfaces c)
         \<and> filter reported (snd (InitializeNetworking h c nspid tr))
             = filter reported tr1 @ concat (map (step_report ''error was %+v'') outs)"
    by (rule reported_InitializeNetworking [OF s])
  show "\<exists>tr2. InitializeNetworking h c nspid tr =
          (SendToChild h tr2 ctx, tr2 @ [E_SendToChild ctx (SendToChild h tr2 ctx)])"
    by (simp add: InitializeNetworking_after_strategies [OF s] Let_def)
qed

theorem interface_steps_best_effort_witness:
  "InitializeNetworking_strategies ok_host 4242 (Networks full_container) [] [] =
     (None, [], [E_GetStrategy ''veth'' (Inr (Strategy ''veth'')),
                 E_Create (Strategy ''veth'') \<lparr>Type = ''veth''\<rparr> 4242 (None, [])])
   \<and> steps (snd (InitializeNetworking ok_host full_container 4242 [])) =
       [Down ''eth1'', IntoNamespace ''eth1'' 4242, Up ''eth1'',
        Down ''eth9'', IntoNamespace ''eth9'' 4242, Up ''eth9'']
   \<and> steps (TeardownNetworking ok_host full_container 4242 []) =
       [Down ''eth1'', IntoNamespace ''eth1'' 1, Up ''eth1'',
        Down ''eth9'', IntoNamespace ''eth9'' 1, Up ''eth9'']
   \<and> (\<exists>outs. map fst outs = relocation 4242 (NetworkInterfaces full_container)
         \<and> filter reported (snd (InitializeNetworking ok_host full_container 4242 []))
             = concat (map (step_report ''error was %+v'') outs))
   \<and> filter reported (snd (InitializeNetworking ok_host full_container 4242 [])) =
       [R_InterfaceDown ''eth1'' None, R_SetInterfaceInNamespacePid ''eth1'' 4242 None,
        R_InterfaceUp ''eth1'' None,
        R_InterfaceDown ''eth9'' (Some (OtherError ''no such network interface'')),
        E_Log ''interface down failed for %s'',
        R_SetInterfaceInNamespacePid ''eth9'' 4242
          (Some (OtherError ''no such network interface'')),
        E_Log ''failed to set interface into namespace pid of %d, named %s'',
        E_Log ''error was %+v'',
        R_InterfaceUp ''eth9'' (Some (OtherError ''no such network interface'')),
        E_Log ''interface up failed for %s'']"
proof -
  have strategies:
    "InitializeNetworking_strategies ok_host 4242 (Networks full_container) [] [] =
       (None, [], [E_GetStrategy ''veth'' (Inr (Strategy ''veth'')),
                   E_Create (Strategy ''veth'') \<lparr>Type = ''veth''\<rparr> 4242 (None, [])])"
    by (simp add: ok_host_def full_container_def Let_def)
  have ifaces: "relocation nsPid (NetworkInterfaces full_container) =
       [Down ''eth1'', IntoNamespace ''eth1'' nsPid, Up ''eth1'',
        Down ''eth9'', IntoNamespace ''eth9'' nsPid, Up ''eth9'']" for nsPid
    by (simp add: relocation_def full_container_def)
  have run: "filter reported (snd (InitializeNetworking ok_host full_container 4242 [])) =
       [R_InterfaceDown ''eth1'' None, R_SetInterfaceInNamespacePid ''eth1'' 4242 None,
        R_InterfaceUp ''eth1'' None,
        R_InterfaceDown ''eth9'' (Some (OtherError ''no such network interface'')),
        E_Log ''interface down failed for %s'',
        R_SetInterfaceInNamespacePid ''eth9'' 4242
          (Some (OtherError ''no such network interface'')),
        E_Log ''failed to set interface into namespace pid of %d, named %s'',
        E_Log ''error was %+v'',
        R_InterfaceUp ''eth9'' (Some (OtherError ''no such network interface'')),
        E_Log ''interface up failed for %s'']"
    by (simp add: Exec_simps ok_host_def full_container_def failure_lines_def)
  from interface_steps_best_effort
         [of ok_host 4242 "NetworkInterfaces full_container" "[]" full_container]
       strategies
  have a: "steps (snd (InitializeNetworking ok_host full_container 4242 [])) =
             relocation 4242 (NetworkInterfaces full_container)"
    and b: "steps (TeardownNetworking ok_host full_container 4242 []) =
             relocation 1 (NetworkInterfaces full_container)"
    and c: "\<exists>outs. map fst outs = relocation 4242 (NetworkInterfaces full_container)
         \<and> filter reported (snd (InitializeNetworking ok_host full_container 4242 []))
             = concat (map (step_report ''error was %+v'') outs)"
    by simp_all
  from a b c strategies run show ?thesis
    by (simp only: ifaces)
qed

section \<open>Properties: cgroups before networking, and the release of the child\<close>

lemma SetupCgroups_no_networking:
  "filter networking (snd (SetupCgroups h c p tr)) = filter networking tr"
  by (simp add: SetupCgroups_def Let_def split: option.splits)

lemma launched_no_networking:
  "filter networking (prelude c console rootfs dataPath args @ recorded dataPath p started) = []"
  by (simp add: path_defs)

lemma launched_started:
  "E_Start (Inr p) \<in> set (prelude c console rootfs dataPath args @ recorded dataPath p started)"
  by (simp add: path_defs)

text \<open>
  Claim C8. In every run of \<open>Exec\<close> that returns no error, the log splits at two points:
  \<open>SetupCgroups\<close> was called with the pid of the started child on the log \<open>before\<close> and
  returned no error, leaving the log \<open>cgroups_done\<close>; up to there the log holds no
  networking call at all; \<open>InitializeNetworking\<close> was then called with the same pid on
  \<open>cgroups_done\<close>, so every call of a strategy or on an interface comes after cgroup
  application has returned.
\<close>

theorem Exec_cgroups_before_networking:
  assumes run: "Exec h c rootfs dataPath args cb = ((code, None), tr)"
  shows "\<exists>p before cleaner cg net rest.
           E_Start (Inr p) \<in> set before
         \<and> SetupCgroups h c p before = ((cleaner, None), before @ cg)
         \<and> filter networking (before @ cg) = []
         \<and> InitializeNetworking h c p (before @ cg) = (None, before @ cg @ net)
         \<and> tr = before @ cg @ net @ rest"
  using run
proof (cases rule: Exec_cases)
  case (exited console p started cleaner cg net w code' down)
  let ?before = "prelude c console rootfs dataPath args @ recorded dataPath p started"
  have "filter networking (?before @ cg) = []"
    using SetupCgroups_no_networking [of h c p ?before] exited(3) launched_no_networking
    by simp
  with exited launched_started [of p c console rootfs dataPath args started]
  show ?thesis
    apply -
    apply (rule exI [of _ p])
    apply (rule exI [of _ ?before])
    apply (rule exI [of _ cleaner])
    apply (rule exI [of _ cg])
    apply (rule exI [of _ net])
    apply simp
    done
qed simp_all

lemma ok_full_run:
  "fst (Exec ok_host full_container ''/rootfs'' ''/data'' [''sh''] True) = (0, None)"
  by (simp add: Exec_simps ok_host_def full_container_def)

theorem Exec_cgroups_before_networking_witness:
  "fst (Exec ok_host full_container ''/rootfs'' ''/data'' [''sh''] True) = (0, None)
   \<and> (\<exists>p before cleaner cg net rest.
           E_Start (Inr p) \<in> set before
         \<and> SetupCgroups ok_host full_container p before = ((cleaner, None), before @ cg)
         \<and> filter networking (before @ cg) = []
         \<and> InitializeNetworking ok_host full_container p (before @ cg)
             = (None, before @ cg @ net)
         \<and> snd (Exec ok_host full_container ''/rootfs'' ''/data'' [''sh''] True)
             = before @ cg @ net @ rest)"
proof -
  have run: "Exec ok_host full_container ''/rootfs'' ''/data'' [''sh''] True =
               ((0, None), snd (Exec ok_host full_container ''/rootfs'' ''/data'' [''sh''] True))"
    using ok_full_run by (simp add: prod_eq_iff)
  from Exec_cgroups_before_networking [OF run] ok_full_run show ?thesis by simp
qed

lemma sent_log [simp]: "filter sent (log_if_failed e ls tr) = filter sent tr"
  by (induction ls) (auto simp: log_if_failed_def)

lemma sent_InterfaceDown [simp]:
  "filter sent (snd (InterfaceDown h name tr)) = filter sent tr"
  by (simp add: InterfaceDown_def Let_def split: sum.splits)

lemma sent_InterfaceUp [simp]:
  "filter sent (snd (InterfaceUp h name tr)) = filter sent tr"
  by (simp add: InterfaceUp_def Let_def split: sum.splits)

lemma sent_SetInterfaceInNamespacePid [simp]:
  "filter sent (snd (SetInterfaceInNamespacePid h name p tr)) = filter sent tr"
  by (simp add: SetInterfaceInNamespacePid_def Let_def split: sum.splits)

lemma sent_InitializeNetworking_interfaces [simp]:
  "filter sent (InitializeNetworking_interfaces h p ifs tr) = filter sent tr"
  by (induction ifs arbitrary: tr) (simp_all add: Let_def)

lemma sent_InitializeNetworking_strategies [simp]:
  "filter sent (snd (snd (InitializeNetworking_strategies h p ns ctx tr))) = filter sent tr"
  by (induction ns arbitrary: ctx tr) (simp_all add: Let_def split: sum.splits option.splits)

lemma sent_SetupCgroups [simp]:
  "filter sent (snd (SetupCgroups h c p tr)) = filter sent tr"
  by (simp add: SetupCgroups_def Let_def split: option.splits)

lemma sent_InitializeNetworking_failed:
  assumes "InitializeNetworking h c p tr = (Some err, tr')"
  shows "filter sent tr' = filter sent tr"
proof -
  obtain e ctx tr1 where s: "InitializeNetworking_strategies h p (Networks c) [] tr = (e, ctx, tr1)"
    by (cases "InitializeNetworking_strategies h p (Networks c) [] tr") auto
  from sent_InitializeNetworking_strategies [of h p "Networks c" "[]" tr] s
  have tr1: "filter sent tr1 = filter sent tr" by simp
  show ?thesis
  proof (cases e)
    case (Some x)
    with assms s tr1 show ?thesis by (simp add: InitializeNetworking_def)
  next
    case None
    with assms s tr1 show ?thesis
      by (auto simp: InitializeNetworking_def Let_def)
  qed
qed

lemma launched_not_sent:
  "filter sent (prelude c console rootfs dataPath args @ recorded dataPath p started) = []"
  by (simp add: path_defs)

lemma Exec_sent_then_closed:
  assumes run: "Exec h c rootfs dataPath args cb = (r, tr)"
    and sent: "E_SendToChild ctx None \<in> set tr"
  shows "E_SyncPipeClose \<in> set tr"
  using run
proof (cases rule: Exec_cases)
  case (cgroup console p started cleaner err cg w)
  let ?L = "prelude c console rootfs dataPath args @ recorded dataPath p started"
  from sent_SetupCgroups [of h c p ?L] cgroup(2) launched_not_sent [of c console rootfs dataPath args p started]
  have "filter sent cg = []" by simp
  then have "E_SendToChild ctx None \<notin> set cg"
    by (auto simp: filter_empty_conv)
  with sent cgroup show ?thesis by (auto simp: path_defs split: if_splits)
next
  case (network console p started cleaner cg err net w)
  let ?L = "prelude c console rootfs dataPath args @ recorded dataPath p started"
  from sent_SetupCgroups [of h c p ?L] network(2) launched_not_sent [of c console rootfs dataPath args p started]
  have cg: "filter sent cg = []" by simp
  from sent_InitializeNetworking_failed [OF network(3)] cg
    launched_not_sent [of c console rootfs dataPath args p started]
  have "filter sent net = []" by simp
  with cg have "E_SendToChild ctx None \<notin> set cg" "E_SendToChild ctx None \<notin> set net"
    by (auto simp: filter_empty_conv)
  with sent network show ?thesis
    by (auto simp: path_defs cleanup_events_def split: if_splits option.splits)
qed (insert sent, auto simp: path_defs split: if_splits)

text \<open>
  Claim C5, as the code has it. \<open>Exec\<close> closes its end of the pipe at most once. When it
  does, the child has not been killed, and the close comes right after
  \<open>InitializeNetworking\<close> has returned no error, which was called after \<open>SetupCgroups\<close> had
  returned no error. It does so whenever the network setup got to hand the context to
  the child without error, which is its last call. When it does not, the launch was
  aborted: \<open>Exec\<close> returns -1 and an error, and its end of the pipe is left open.
\<close>

theorem SyncPipe_closed_after_setup:
  assumes run: "Exec h c rootfs dataPath args cb = ((code, err), tr)"
  shows "length (filter is_SyncPipeClose tr) \<le> 1
       \<and> (E_SyncPipeClose \<in> set tr \<longrightarrow>
            filter is_Kill tr = []
          \<and> (\<exists>p before cleaner cg net rest.
                 E_Start (Inr p) \<in> set before
               \<and> SetupCgroups h c p before = ((cleaner, None), before @ cg)
               \<and> InitializeNetworking h c p (before @ cg) = (None, before @ cg @ net)
               \<and> tr = before @ cg @ net @ E_SyncPipeClose # rest
               \<and> filter is_SyncPipeClose rest = []))
       \<and> (\<forall>ctx. E_SendToChild ctx None \<in> set tr \<longrightarrow> E_SyncPipeClose \<in> set tr)
       \<and> (E_SyncPipeClose \<notin> set tr \<longrightarrow> code = - 1 \<and> err \<noteq> None)"
  using run Exec_sent_then_closed [OF run]
proof (cases rule: Exec_cases)
  case (wait console p started cleaner cg net err' down)
  let ?before = "prelude c console rootfs dataPath args @ recorded dataPath p started"
  from wait launched_started [of p c console rootfs dataPath args started]
  have "\<exists>p before cleaner cg net rest.
           E_Start (Inr p) \<in> set before
         \<and> SetupCgroups h c p before = ((cleaner, None), before @ cg)
         \<and> InitializeNetworking h c p (before @ cg) = (None, before @ cg @ net)
         \<and> tr = before @ cg @ net @ E_SyncPipeClose # rest
         \<and> filter is_SyncPipeClose rest = []"
    apply -
    apply (rule exI [of _ p])
    apply (rule exI [of _ ?before])
    apply (rule exI [of _ cleaner])
    apply (rule exI [of _ cg])
    apply (rule exI [of _ net])
    apply (simp add: callback_events_def)
    done
  with wait show ?thesis by (simp add: path_defs)
next
  case (exited console p started cleaner cg net w code' down)
  let ?before = "prelude c console rootfs dataPath args @ recorded dataPath p started"
  from exited launched_started [of p c console rootfs dataPath args started]
  have "\<exists>p before cleaner cg net rest.
           E_Start (Inr p) \<in> set before
         \<and> SetupCgroups h c p before = ((cleaner, None), before @ cg)
         \<and> InitializeNetworking h c p (before @ cg) = (None, before @ cg @ net)
         \<and> tr = before @ cg @ net @ E_SyncPipeClose # rest
         \<and> filter is_SyncPipeClose rest = []"
    apply -
    apply (rule exI [of _ p])
    apply (rule exI [of _ ?before])
    apply (rule exI [of _ cleaner])
    apply (rule exI [of _ cg])
    apply (rule exI [of _ net])
    apply (simp add: callback_events_def)
    done
  with exited show ?thesis by (simp add: path_defs)
qed (auto simp: path_defs background_not_mem cleanup_events_def split: option.splits)

theorem SyncPipe_closed_after_setup_witness:
  "E_SyncPipeClose
     \<in> set (snd (Exec exit_17_host plain_container ''/rootfs'' ''/data'' [''sh''] False))
   \<and> length (filter is_SyncPipeClose
       (snd (Exec exit_17_host plain_container ''/rootfs'' ''/data'' [''sh''] False))) = 1
   \<and> filter is_Kill
       (snd (Exec exit_17_host plain_container ''/rootfs'' ''/data'' [''sh''] False)) = []
   \<and> E_SyncPipeClose
     \<notin> set (snd (Exec no_start_time_host plain_container ''/rootfs'' ''/data'' [''sh''] False))
   \<and> fst (Exec no_start_time_host plain_container ''/rootfs'' ''/data'' [''sh''] False)
       = (- 1, Some (OtherError ''no such process''))"
  using SyncPipe_closed_after_setup [OF exit_17_run]
    SyncPipe_closed_after_setup [OF no_start_time_run]
  by (simp add: exit_17_run no_start_time_run)

text \<open>
  Claim C5 as the specification states it, the pipe closed once on every execution,
  fails on an aborted launch: here the pid file cannot be written, the child is killed,
  and the pipe is never closed.
\<close>

theorem SyncPipe_not_closed_on_abort:
  "filter is_SyncPipeClose
     (snd (Exec no_pid_file_host plain_container ''/rootfs'' ''/data'' [''sh''] False)) = []
   \<and> filter is_Kill
     (snd (Exec no_pid_file_host plain_container ''/rootfs'' ''/data'' [''sh''] False))
       = [E_Kill 4242]"
  by (simp add: no_pid_file_run)

text \<open>
  Claim C6, as the code has it. When the container asks for a terminal and the terminal
  pair cannot be allocated, \<open>Exec\<close> returns -1 and that error at once. Its only calls
  were the creation of the pipe and the failed allocation: no command was created, no
  child started, nothing else was acquired, and nothing is cleaned up, the pipe
  included.
\<close>

theorem Exec_terminal_failure:
  assumes "Tty c"
    and "NewSyncPipe h [] = None"
    and "CreateMasterAndConsole h [E_NewSyncPipe None] = Inl err"
  shows "Exec h c rootfs dataPath args cb =
           ((- 1, Some err), [E_NewSyncPipe None, E_CreateMasterAndConsole (Inl err)])"
  using assms by (simp add: Exec_def Exec_body_def Let_def)

theorem Exec_terminal_failure_witness:
  "Tty full_container
   \<and> NewSyncPipe no_terminal_host [] = None
   \<and> CreateMasterAndConsole no_terminal_host [E_NewSyncPipe None] = Inl (OtherError ''no ptmx'')
   \<and> Exec no_terminal_host full_container ''/rootfs'' ''/data'' [''sh''] True =
       ((- 1, Some (OtherError ''no ptmx'')),
        [E_NewSyncPipe None, E_CreateMasterAndConsole (Inl (OtherError ''no ptmx''))])"
proof -
  have t: "Tty full_container"
    and p: "NewSyncPipe no_terminal_host [] = None"
    and m: "CreateMasterAndConsole no_terminal_host [E_NewSyncPipe None]
              = Inl (OtherError ''no ptmx'')"
    by (simp_all add: full_container_def no_terminal_host_def ok_host_def)
  from Exec_terminal_failure [OF t p m] t p m show ?thesis by simp
qed

text \<open>
  Claim C6 as the specification states it, the pipe released on this path, fails: the
  log of the run holds no close of the pipe.
\<close>

theorem Exec_terminal_failure_leaves_pipe:
  "fst (Exec no_terminal_host full_container ''/rootfs'' ''/data'' [''sh''] False)
     = (- 1, Some (OtherError ''no ptmx''))
   \<and> filter is_SyncPipeClose
       (snd (Exec no_terminal_host full_container ''/rootfs'' ''/data'' [''sh''] False)) = []"
  by (simp add: no_terminal_run)

end
